theory Spec2Isabelle
  imports Main "HOL-Library.Signed_Division" "HOL-Library.Sublist"
begin

section \<open>The ranged-effect engine of \<^verbatim>\<open>beam.cc\<close>: data model\<close>

text \<open>
  The development follows \<^verbatim>\<open>crawl-ref/source/beam.cc\<close>. A \<^verbatim>\<open>bolt\<close> object is a
  record, every member function takes the bolt (and, where it touches the dungeon, the
  world) and returns the updated copy. Everything the file calls but does not define
  (the ray class, the terrain predicates, the monster and player subsystems, the random number
  generator, the prompts, the numeric constants of the headers) is a parameter of the
  function that uses it.
\<close>

subsection \<open>Coordinates, enumerations\<close>

record coord_def =
  cx :: int
  cy :: int

definition coord :: "int \<Rightarrow> int \<Rightarrow> coord_def" where
  "coord a b = \<lparr>cx = a, cy = b\<rparr>"

definition coord_add :: "coord_def \<Rightarrow> coord_def \<Rightarrow> coord_def" where
  "coord_add p q = \<lparr>cx = cx p + cx q, cy = cy p + cy q\<rparr>"

definition coord_sub :: "coord_def \<Rightarrow> coord_def \<Rightarrow> coord_def" where
  "coord_sub p q = \<lparr>cx = cx p - cx q, cy = cy p - cy q\<rparr>"

text \<open>\<^verbatim>\<open>coord_def::rdist\<close> is the Chebyshev norm, \<^verbatim>\<open>coord_def::abs\<close> the squared
  Euclidean norm, \<^verbatim>\<open>coord_def::origin\<close> the test for \<open>(0,0)\<close>.\<close>

definition rdist :: "coord_def \<Rightarrow> int" where
  "rdist p = max \<bar>cx p\<bar> \<bar>cy p\<bar>"

definition abs_sq :: "coord_def \<Rightarrow> int" where
  "abs_sq p = cx p * cx p + cy p * cy p"

definition origin :: "coord_def \<Rightarrow> bool" where
  "origin p = (cx p = 0 \<and> cy p = 0)"

text \<open>The flavours that \<^verbatim>\<open>beam.cc\<close> names. The numbering of the enumeration is in a
  header outside the file; the one place that depends on it, \<^verbatim>\<open>is_enchantment\<close>, takes
  the range test as a parameter.\<close>

datatype beam_type =
    BEAM_NONE | BEAM_MISSILE | BEAM_MMISSILE | BEAM_FIRE | BEAM_COLD | BEAM_MAGIC
  | BEAM_ELECTRICITY | BEAM_POISON | BEAM_NEG | BEAM_ACID | BEAM_MIASMA | BEAM_SPORE
  | BEAM_POISON_ARROW | BEAM_HELLFIRE | BEAM_NAPALM | BEAM_STEAM | BEAM_ENERGY
  | BEAM_HOLY | BEAM_FRAG | BEAM_LAVA | BEAM_ICE | BEAM_NUKE | BEAM_RANDOM | BEAM_CHAOS
  | BEAM_SLOW | BEAM_HASTE | BEAM_MIGHT | BEAM_HEALING | BEAM_PARALYSIS | BEAM_CONFUSION
  | BEAM_INVISIBILITY | BEAM_DIGGING | BEAM_TELEPORT | BEAM_POLYMORPH | BEAM_CHARM
  | BEAM_BANISH | BEAM_DEGENERATE | BEAM_ENSLAVE_UNDEAD | BEAM_ENSLAVE_SOUL | BEAM_PAIN
  | BEAM_DISPEL_UNDEAD | BEAM_DISINTEGRATION | BEAM_ENSLAVE_DEMON | BEAM_BLINK
  | BEAM_BLINK_CLOSE | BEAM_PETRIFY | BEAM_CORONA | BEAM_PORKALATOR | BEAM_HIBERNATION
  | BEAM_BERSERK | BEAM_SLEEP | BEAM_VISUAL | BEAM_TORMENT_DAMAGE | BEAM_STEAL_FOOD
  | BEAM_POTION_STINKING_CLOUD | BEAM_POTION_POISON | BEAM_POTION_MIASMA | BEAM_POTION_STEAM
  | BEAM_POTION_FIRE | BEAM_POTION_COLD | BEAM_POTION_BLACK_SMOKE | BEAM_POTION_GREY_SMOKE
  | BEAM_POTION_BLUE_SMOKE | BEAM_POTION_PURPLE_SMOKE | BEAM_POTION_RAIN
  | BEAM_POTION_MUTAGENIC | BEAM_POTION_RANDOM

datatype killer_type =
    KILL_YOU | KILL_YOU_MISSILE | KILL_YOU_CONF | KILL_MON | KILL_MON_MISSILE
  | KILL_MISC | KILL_RESET

datatype actor = The_Player | A_Monster nat

datatype mon_attitude_type =
    ATT_HOSTILE | ATT_NEUTRAL | ATT_STRICT_NEUTRAL | ATT_GOOD_NEUTRAL | ATT_FRIENDLY

datatype monster_type =
    MONS_BUSH | MONS_FIRE_VORTEX | MONS_BALLISTOMYCETE | MONS_OTHER nat

datatype kill_category = KC_YOU | KC_FRIENDLY | KC_OTHER

datatype msg_channel_type =
    MSGCH_PLAIN | MSGCH_SOUND | MSGCH_WARN | MSGCH_GOD | MSGCH_MONSTER_DAMAGE

datatype cloud_type =
    CLOUD_FIRE | CLOUD_FOREST_FIRE | CLOUD_POISON | CLOUD_MIASMA | CLOUD_COLD | CLOUD_STEAM

datatype conduct_type =
    DID_UNHOLY | DID_KILL_PLANT | DID_ALLY_KILLED_PLANT | DID_DESTROY_ORCISH_IDOL
  | DID_NECROMANCY | DID_UNCLEAN

text \<open>The dungeon features that the file names; every other feature of the enumeration
  is \<open>DNGN_OTHER n\<close>.\<close>

datatype dungeon_feature_type =
    DNGN_ROCK_WALL | DNGN_CLEAR_ROCK_WALL | DNGN_FLOOR | DNGN_WAX_WALL | DNGN_TREES
  | DNGN_METAL_WALL | DNGN_GREEN_CRYSTAL_WALL | DNGN_GRANITE_STATUE | DNGN_ORCISH_IDOL
  | DNGN_SECRET_DOOR | DNGN_LAVA | DNGN_OTHER nat

subsection \<open>What the headers define\<close>

text \<open>
  The constants and macros that \<^verbatim>\<open>beam.cc\<close> takes from headers outside the file:
  \<^verbatim>\<open>BEAM_STOP\<close>, \<^verbatim>\<open>NON_MONSTER\<close>, \<^verbatim>\<open>AUTOMATIC_HIT\<close>, \<^verbatim>\<open>MHITNOT\<close>,
  \<^verbatim>\<open>MHITYOU\<close>, \<^verbatim>\<open>ANON_FRIENDLY_MONSTER\<close>, \<^verbatim>\<open>MAX_MONSTERS\<close>,
  \<^verbatim>\<open>LOS_RADIUS\<close>, the map dimensions \<^verbatim>\<open>GXM\<close> and \<^verbatim>\<open>GYM\<close>, the colours and
  glyphs that \<^verbatim>\<open>refine_for_explosion\<close> and \<^verbatim>\<open>_potion_beam_flavour_to_colour\<close>
  assign, the macros \<^verbatim>\<open>YOU_KILL\<close> and
  \<^verbatim>\<open>MON_KILL\<close> on a \<^verbatim>\<open>killer_type\<close>, \<^verbatim>\<open>invalid_monster_index\<close>, the range
  \<^verbatim>\<open>BEAM_FIRST_ENCHANTMENT .. BEAM_LAST_ENCHANTMENT\<close> of the flavour enumeration
  (\<open>ench_flavour\<close>) and the test \<^verbatim>\<open>flavour <= BEAM_LAST_REAL\<close> (\<open>real_flavour_rng\<close>).
  A function that uses one of them takes the record.
\<close>

record header_consts =
  BEAM_STOP :: int
  NON_MONSTER :: int
  AUTOMATIC_HIT :: int
  MHITNOT :: int
  LOS_RADIUS :: int
  GXM :: int
  GYM :: int
  MHITYOU :: int
  ANON_FRIENDLY_MONSTER :: int
  MAX_MONSTERS :: int
  BLUE :: int
  GREEN :: int
  RED :: int
  MAGENTA :: int
  LIGHTGREY :: int
  DARKGREY :: int
  LIGHTBLUE :: int
  LIGHTGREEN :: int
  LIGHTCYAN :: int
  LIGHTRED :: int
  WHITE :: int
  DCHAR_FIRED_BURST :: int
  DCHAR_FIRED_ZAP :: int
  YOU_KILL :: "killer_type \<Rightarrow> bool"
  MON_KILL :: "killer_type \<Rightarrow> bool"
  invalid_monster_index :: "int \<Rightarrow> bool"
  ench_flavour :: "beam_type \<Rightarrow> bool"
  real_flavour_rng :: "beam_type \<Rightarrow> bool"

subsection \<open>The tracer tallies\<close>

record tracer_info =
  count_t :: int
  power_t :: int
  hurt_t :: int
  helped_t :: int
  dont_stop_t :: bool

text \<open>The members are \<^verbatim>\<open>count\<close>, \<^verbatim>\<open>power\<close>, \<^verbatim>\<open>hurt\<close>, \<^verbatim>\<open>helped\<close> and
  \<^verbatim>\<open>dont_stop\<close>; \<^verbatim>\<open>tracer_info::reset\<close> and \<^verbatim>\<open>operator+=\<close> follow.\<close>

definition tracer_reset :: tracer_info where
  "tracer_reset = \<lparr>count_t = 0, power_t = 0, hurt_t = 0, helped_t = 0, dont_stop_t = False\<rparr>"

definition tracer_plus :: "tracer_info \<Rightarrow> tracer_info \<Rightarrow> tracer_info" where
  "tracer_plus a b =
     \<lparr>count_t = count_t a + count_t b, power_t = power_t a + power_t b,
      hurt_t = hurt_t a + hurt_t b, helped_t = helped_t a + helped_t b,
      dont_stop_t = (dont_stop_t a \<or> dont_stop_t b)\<rparr>"

subsection \<open>The bolt\<close>

record dice_def =
  num :: int
  size_d :: int

text \<open>The members of \<^verbatim>\<open>struct bolt\<close> that the functions below read or write. The ray
  class is outside the file, so its type is the parameter \<open>'r\<close>. The member
  \<^verbatim>\<open>range\<close> is \<open>range_b\<close> here, \<^verbatim>\<open>name\<close> is \<open>name_b\<close>, \<^verbatim>\<open>source\<close> is
  \<open>source_b\<close>, \<^verbatim>\<open>type\<close> is \<open>type_b\<close>; \<open>has_item\<close> is \<^verbatim>\<open>item != NULL\<close>. The four
  callback vectors hold function pointers: here a pointer is a number, and the table of
  the functions behind the numbers is passed to whoever calls them. The pointer
  \<^verbatim>\<open>special_explosion\<close> is kept beside the bolt (see \<open>firing\<close> below).\<close>

record 'r bolt =
  range_b :: int
  type_b :: int
  colour :: int
  flavour :: beam_type
  real_flavour :: beam_type
  drop_item :: bool
  has_item :: bool
  source_b :: coord_def
  target :: coord_def
  damage :: dice_def
  ench_power :: int
  hit :: int
  thrower :: killer_type
  ex_size :: int
  beam_source :: int
  name_b :: string
  loudness :: int
  noise_msg :: string
  is_beam :: bool
  is_explosion :: bool
  is_big_cloud :: bool
  aimed_at_spot :: bool
  affects_nothing :: bool
  affects_items :: bool
  effect_known :: bool
  range_funcs :: "nat list"
  damage_funcs :: "nat list"
  hit_funcs :: "nat list"
  aoe_funcs :: "nat list"
  obvious_effect :: bool
  seen :: bool
  heard :: bool
  path_taken :: "coord_def list"
  range_used :: int
  is_tracer :: bool
  aimed_at_feet :: bool
  msg_generated :: bool
  passed_target :: bool
  in_explosion_phase :: bool
  can_see_invis :: bool
  attitude :: mon_attitude_type
  chose_ray :: bool
  beam_cancelled :: bool
  dont_stop_player :: bool
  bounces :: int
  bounce_pos :: coord_def
  reflections :: int
  auto_hit :: bool
  use_target_as_pos :: bool
  was_missile :: bool
  message_cache :: "string list"
  ray :: 'r
  foe_info :: tracer_info
  friend_info :: tracer_info

text \<open>The constructor \<^verbatim>\<open>bolt::bolt()\<close>. The members that its initialiser list leaves
  out (\<^verbatim>\<open>use_target_as_pos\<close>, \<^verbatim>\<open>was_missile\<close>, the ray) are arguments here; \<open>BLACK\<close>
  is the colour constant of the headers and \<open>star\<close> the glyph \<^verbatim>\<open>'*'\<close>.\<close>

definition bolt_ctor :: "header_consts \<Rightarrow> int \<Rightarrow> int \<Rightarrow> 'r \<Rightarrow> 'r bolt" where
  "bolt_ctor K BLACK star r0 =
     \<lparr>range_b = -2, type_b = star, colour = BLACK, flavour = BEAM_MAGIC,
      real_flavour = BEAM_MAGIC, drop_item = False, has_item = False,
      source_b = coord 0 0, target = coord 0 0, damage = \<lparr>num = 0, size_d = 0\<rparr>,
      ench_power = 0, hit = 0, thrower = KILL_MISC, ex_size = 0, beam_source = MHITNOT K,
      name_b = [], loudness = 0, noise_msg = [], is_beam = False, is_explosion = False,
      is_big_cloud = False, aimed_at_spot = False, affects_nothing = False,
      affects_items = True, effect_known = True, range_funcs = [], damage_funcs = [],
      hit_funcs = [], aoe_funcs = [], obvious_effect = False, seen = False, heard = False,
      path_taken = [], range_used = 0, is_tracer = False, aimed_at_feet = False,
      msg_generated = False, passed_target = False, in_explosion_phase = False,
      can_see_invis = False, attitude = ATT_HOSTILE, chose_ray = False,
      beam_cancelled = False, dont_stop_player = False, bounces = 0,
      bounce_pos = coord 0 0, reflections = 0, auto_hit = False,
      use_target_as_pos = False, was_missile = False, message_cache = [], ray = r0,
      foe_info = tracer_reset, friend_info = tracer_reset\<rparr>"

section \<open>Leaf predicates of the bolt\<close>

text \<open>\<^verbatim>\<open>bolt::finish_beam\<close>: the whole budget is marked as spent.\<close>

definition finish_beam :: "'r bolt \<Rightarrow> 'r bolt" where
  "finish_beam b = b\<lparr>range_used := range_b b\<rparr>"

text \<open>\<^verbatim>\<open>bolt::stop_at_target\<close>.\<close>

definition stop_at_target :: "'r bolt \<Rightarrow> bool" where
  "stop_at_target b = (is_explosion b \<or> is_big_cloud b \<or> aimed_at_spot b)"

text \<open>\<^verbatim>\<open>bolt::is_enchantment\<close> tests that the flavour lies between
  \<^verbatim>\<open>BEAM_FIRST_ENCHANTMENT\<close> and \<^verbatim>\<open>BEAM_LAST_ENCHANTMENT\<close>.\<close>

definition is_enchantment :: "header_consts \<Rightarrow> 'r bolt \<Rightarrow> bool" where
  "is_enchantment K b = ench_flavour K (flavour b)"

text \<open>\<^verbatim>\<open>bolt::invisible\<close>.\<close>

definition invisible :: "header_consts \<Rightarrow> 'r bolt \<Rightarrow> bool" where
  "invisible K b = (type_b b = 0 \<or> is_enchantment K b)"

text \<open>\<^verbatim>\<open>bolt::is_fiery\<close>.\<close>

definition is_fiery :: "'r bolt \<Rightarrow> bool" where
  "is_fiery b = (flavour b = BEAM_FIRE \<or> flavour b = BEAM_HELLFIRE \<or> flavour b = BEAM_LAVA)"

text \<open>\<^verbatim>\<open>std::string::find(pat) != npos\<close>: \<open>pat\<close> occurs in the string.\<close>

fun str_find :: "string \<Rightarrow> string \<Rightarrow> bool" where
  "str_find pat [] = (pat = [])"
| "str_find pat (c # cs) = (prefix pat (c # cs) \<or> str_find pat cs)"

text \<open>\<^verbatim>\<open>bolt::is_superhot\<close>.\<close>

definition is_superhot :: "'r bolt \<Rightarrow> bool" where
  "is_superhot b =
     (if \<not> is_fiery b then False
      else (name_b b = ''bolt of fire'' \<or> name_b b = ''bolt of magma''
            \<or> name_b b = ''fireball''
            \<or> (str_find ''hellfire'' (name_b b) \<and> in_explosion_phase b)))"

text \<open>\<^verbatim>\<open>bolt::is_blockable\<close>.\<close>

definition is_blockable :: "'r bolt \<Rightarrow> bool" where
  "is_blockable b = (\<not> is_beam b \<and> \<not> is_explosion b \<and> flavour b \<noteq> BEAM_ELECTRICITY)"

text \<open>\<^verbatim>\<open>bolt::affects_wall\<close>.\<close>

definition affects_wall :: "'r bolt \<Rightarrow> dungeon_feature_type \<Rightarrow> bool" where
  "affects_wall b wall =
     (if flavour b = BEAM_DIGGING then True
      else if flavour b = BEAM_DISINTEGRATION \<and> num (damage b) \<ge> 3 then True
      else if is_fiery b \<and> (wall = DNGN_WAX_WALL \<or> wall = DNGN_TREES) then True
      else if flavour b = BEAM_NUKE then True
      else if flavour b = BEAM_FRAG then True
      else False)"

text \<open>\<^verbatim>\<open>bolt::killer\<close> and \<^verbatim>\<open>bolt::beam_source_as_target\<close>.\<close>

definition killer :: "'r bolt \<Rightarrow> killer_type" where
  "killer b =
     (if flavour b = BEAM_BANISH then KILL_RESET
      else (case thrower b of
              KILL_YOU \<Rightarrow> (if flavour b = BEAM_PARALYSIS \<or> flavour b = BEAM_PETRIFY
                            then KILL_YOU else KILL_YOU_MISSILE)
            | KILL_YOU_MISSILE \<Rightarrow> (if flavour b = BEAM_PARALYSIS \<or> flavour b = BEAM_PETRIFY
                                    then KILL_YOU else KILL_YOU_MISSILE)
            | KILL_MON \<Rightarrow> KILL_MON_MISSILE
            | KILL_MON_MISSILE \<Rightarrow> KILL_MON_MISSILE
            | KILL_YOU_CONF \<Rightarrow> KILL_YOU_CONF
            | _ \<Rightarrow> KILL_MON_MISSILE))"

definition beam_source_as_target :: "header_consts \<Rightarrow> 'r bolt \<Rightarrow> int" where
  "beam_source_as_target K b =
     (if MON_KILL K (thrower b) then beam_source b
      else if thrower b = KILL_MISC then MHITNOT K
      else MHITYOU K)"

text \<open>\<^verbatim>\<open>bolt::agent\<close>: the player, a monster of \<^verbatim>\<open>menv\<close>, or \<^verbatim>\<open>NULL\<close>.\<close>

definition agent :: "header_consts \<Rightarrow> 'r bolt \<Rightarrow> actor option" where
  "agent K b =
     (if YOU_KILL K (thrower b) then Some The_Player
      else if \<not> invalid_monster_index K (beam_source b) then Some (A_Monster (nat (beam_source b)))
      else None)"

section \<open>Hit and miss: \<^verbatim>\<open>_test_beam_hit\<close>\<close>

text \<open>
  \<^verbatim>\<open>defer_rand\<close> is a tree of replayable random sources; \<^verbatim>\<open>r[i]\<close> is child \<open>i\<close>. The
  class is outside the file: a child offers the three draws that the function uses.
  C++ division of \<^verbatim>\<open>int\<close> truncates towards zero (\<open>sdiv\<close>).
\<close>

record rand_node =
  dr_random2 :: "int \<Rightarrow> int"
  dr_random_range :: "int \<Rightarrow> int \<Rightarrow> int"
  dr_random2avg :: "int \<Rightarrow> int \<Rightarrow> int"

type_synonym defer_rand = "nat \<Rightarrow> rand_node"

text \<open>\<open>AH\<close> is the header constant \<^verbatim>\<open>AUTOMATIC_HIT\<close>.\<close>

definition test_beam_hit ::
  "int \<Rightarrow> int \<Rightarrow> int \<Rightarrow> bool \<Rightarrow> bool \<Rightarrow> bool \<Rightarrow> defer_rand \<Rightarrow> bool" where
  "test_beam_hit AH attack0 defence0 beam deflect repel r =
     (let attack =
            (if beam \<and> deflect then dr_random2 (r 0) (attack0 * 2) sdiv 3
             else if beam \<and> repel then
               (if attack0 \<ge> 2 then dr_random_range (r 0) ((attack0 + 1) sdiv 2 + 1) attack0
                else attack0)
             else if deflect then dr_random2 (r 0) (attack0 sdiv 2)
             else if repel then dr_random2 (r 0) attack0
             else attack0)
      in if attack = AH then True
         else (let attack' = dr_random2 (r 1) attack;
                   defence = dr_random2avg (r 2) defence0 2
               in attack' \<ge> defence))"

section \<open>Range spent on a hit: \<^verbatim>\<open>bolt::range_used_on_hit\<close>\<close>

text \<open>
  The callbacks in \<^verbatim>\<open>range_funcs\<close> receive the bolt, the victim and a reference to
  \<^verbatim>\<open>used\<close>; a callback that returns true ends the loop. A callback is a function to
  the pair of its result and the new \<^verbatim>\<open>used\<close>.
\<close>

type_synonym 'r range_func = "'r bolt \<Rightarrow> actor \<Rightarrow> int \<Rightarrow> bool \<times> int"

fun apply_range_funcs ::
  "(nat \<Rightarrow> 'r range_func) \<Rightarrow> nat list \<Rightarrow> 'r bolt \<Rightarrow> actor \<Rightarrow> int \<Rightarrow> int" where
  "apply_range_funcs tab [] b victim used = used"
| "apply_range_funcs tab (f # fs) b victim used =
     (case tab f b victim used of
        (True, used') \<Rightarrow> used'
      | (False, used') \<Rightarrow> apply_range_funcs tab fs b victim used')"

text \<open>The value of \<^verbatim>\<open>used\<close> before the tracer and callback adjustments.\<close>

definition base_range_used :: "header_consts \<Rightarrow> 'r bolt \<Rightarrow> int" where
  "base_range_used K b =
     (if \<not> is_beam b then BEAM_STOP K
      else if is_enchantment K b then
        (if flavour b = BEAM_DIGGING then 0 else BEAM_STOP K)
      else if str_find ''hellfire'' (name_b b) then 0
      else if is_explosion b \<or> is_big_cloud b then BEAM_STOP K
      else if flavour b = BEAM_ACID then BEAM_STOP K
      else if flavour b = BEAM_ELECTRICITY then 0
      else 1)"

definition range_used_on_hit ::
  "header_consts \<Rightarrow> (nat \<Rightarrow> 'r range_func) \<Rightarrow> 'r bolt \<Rightarrow> actor \<Rightarrow> int" where
  "range_used_on_hit K tab b victim =
     (let used = base_range_used K b
      in if is_tracer b \<and> beam_source b = NON_MONSTER K \<and> used = BEAM_STOP K then 1
         else if in_explosion_phase b then used
         else apply_range_funcs tab (range_funcs b) b victim used)"

section \<open>The dungeon and the collaborators\<close>

text \<open>
  The world has four parts. The feature grid \<^verbatim>\<open>grd\<close> and the blood flag of
  \<^verbatim>\<open>env.pgrid\<close> are written by the file itself. \<open>dgn\<close> is everything else that makes
  up the game proper (monsters with their hit points, the player with the inventory,
  items, clouds, markers), which only the collaborators' functions read and change.
  \<open>io\<close> is what is not part of the game proper: the state of the random number
  generator, the answers the user will give to prompts, the message log and the screen.
\<close>

record ('x, 'y) world =
  grd :: "coord_def \<Rightarrow> dungeon_feature_type"
  pgrid_bloody :: "coord_def \<Rightarrow> bool"
  dgn :: 'x
  io :: 'y

text \<open>The terrain predicates and bounds tests of the headers.\<close>

record terrain_ops =
  feat_is_solid :: "dungeon_feature_type \<Rightarrow> bool"
  feat_is_wall :: "dungeon_feature_type \<Rightarrow> bool"
  feat_is_closed_door :: "dungeon_feature_type \<Rightarrow> bool"
  feat_is_watery :: "dungeon_feature_type \<Rightarrow> bool"
  in_bounds :: "coord_def \<Rightarrow> bool"
  map_bounds :: "coord_def \<Rightarrow> bool"

text \<open>\<^verbatim>\<open>cell_is_solid(p)\<close> is \<^verbatim>\<open>feat_is_solid(grd(p))\<close>.\<close>

definition cell_is_solid :: "terrain_ops \<Rightarrow> ('x, 'y) world \<Rightarrow> coord_def \<Rightarrow> bool" where
  "cell_is_solid T w p = feat_is_solid T (grd w p)"

text \<open>\<^verbatim>\<open>bolt::pos\<close>; \<open>ray_pos\<close> is \<^verbatim>\<open>ray_def::pos\<close>.\<close>

definition pos :: "('r \<Rightarrow> coord_def) \<Rightarrow> 'r bolt \<Rightarrow> coord_def" where
  "pos ray_pos b =
     (if in_explosion_phase b \<or> use_target_as_pos b then target b else ray_pos (ray b))"

section \<open>The flood fill of an explosion: \<^verbatim>\<open>bolt::determine_affected_cells\<close>\<close>

text \<open>
  The map \<^verbatim>\<open>explosion_map\<close> is a 19 by 19 array of \<^verbatim>\<open>int\<close> indexed by
  \<^verbatim>\<open>delta + centre\<close> with \<^verbatim>\<open>centre = (9,9)\<close>; every access below comes after the test
  \<^verbatim>\<open>rdist() <= centre.rdist()\<close> on the offset, so it is inside the array, and the
  array is a function here. \<^verbatim>\<open>explode\<close> fills it with \<^verbatim>\<open>INT_MAX\<close> first.
\<close>

type_synonym explosion_map = "coord_def \<Rightarrow> int"

definition centre :: coord_def where
  "centre = coord 9 9"

definition INT_MAX :: int where
  "INT_MAX = 2147483647"

definition exp_map_init :: explosion_map where
  "exp_map_init = (\<lambda>p. INT_MAX)"

text \<open>
  What the fill asks of its surroundings: the terrain predicates, the feature grid, the
  position of the bolt, \<^verbatim>\<open>is_sanctuary\<close>, the table \<^verbatim>\<open>Compass\<close> of the eight
  directions, and the area-membership callbacks \<^verbatim>\<open>aoe_funcs\<close> (each is asked, and all
  must agree: \<^verbatim>\<open>hits = f(*this, loc) && hits\<close>). A membership callback is a predicate
  of the bolt and the cell.
\<close>

record ('r, 'x, 'y) fill_env =
  fe_terrain :: terrain_ops
  fe_ray_pos :: "'r \<Rightarrow> coord_def"
  fe_is_sanctuary :: "('x, 'y) world \<Rightarrow> coord_def \<Rightarrow> bool"
  fe_Compass :: "coord_def list"
  fe_aoe :: "nat \<Rightarrow> 'r bolt \<Rightarrow> coord_def \<Rightarrow> bool"

definition aoe_hits :: "(nat \<Rightarrow> 'r bolt \<Rightarrow> coord_def \<Rightarrow> bool) \<Rightarrow> 'r bolt \<Rightarrow> coord_def \<Rightarrow> bool" where
  "aoe_hits tab b loc = fold (\<lambda>f h. tab f b loc \<and> h) (aoe_funcs b) True"

text \<open>The cost \<^verbatim>\<open>cadd\<close> of the step from \<open>delta\<close> in direction \<open>c\<close>: changing
  direction costs more.\<close>

definition cadd :: "coord_def \<Rightarrow> coord_def \<Rightarrow> int" where
  "cadd delta c = (if cx delta * cx c < 0 \<or> cy delta * cy c < 0 then 17 else 5)"

function determine_affected_cells ::
  "('r, 'x, 'y) fill_env \<Rightarrow> ('x, 'y) world \<Rightarrow> 'r bolt \<Rightarrow> explosion_map \<Rightarrow> coord_def \<Rightarrow> int \<Rightarrow> int
   \<Rightarrow> bool \<Rightarrow> bool \<Rightarrow> explosion_map" where
  "determine_affected_cells F w b m delta cnt r stop_at_statues stop_at_walls =
     (let T = fe_terrain F; loc = coord_add (pos (fe_ray_pos F) b) delta in
      if rdist delta > rdist centre \<or> abs_sq delta > r * (r + 1) \<or> cnt > 10 * r
         \<or> \<not> map_bounds T loc \<or> fe_is_sanctuary F w loc then m
      else
        (let dngn_feat = grd w loc in
         if (feat_is_wall T dngn_feat \<or> dngn_feat = DNGN_SECRET_DOOR
             \<or> feat_is_closed_door T dngn_feat)
            \<and> stop_at_walls \<and> \<not> (origin delta \<and> affects_wall b dngn_feat) then m
         else if feat_is_solid T dngn_feat \<and> \<not> feat_is_wall T dngn_feat \<and> stop_at_statues
         then m
         else
           (let hits = aoe_hits (fe_aoe F) b loc;
                m1 = (if hits
                      then m(coord_add delta centre := min cnt (m (coord_add delta centre)))
                      else m)
            in fold (\<lambda>c ma.
                       (let new_delta = coord_add delta c in
                        if rdist new_delta > rdist centre then ma
                        else if ma (coord_add new_delta centre) \<le> cnt then ma
                        else determine_affected_cells F w b ma new_delta (cnt + cadd delta c) r
                               stop_at_statues stop_at_walls))
                    (take 8 (fe_Compass F)) m1)))"
  by pat_completeness auto
termination
  by (relation "measure (\<lambda>(F, w, b, m, delta, cnt, r, ss, sw). nat (10 * r + 1 - cnt))")
     (auto simp: cadd_def)

subsection \<open>Vocabulary for the properties of the fill\<close>

text \<open>The tests at the head of the function that do not depend on \<^verbatim>\<open>count\<close>, collected:
  the cell at offset \<open>delta\<close> lets the blast in.\<close>

definition cell_open ::
  "('r, 'x, 'y) fill_env \<Rightarrow> ('x, 'y) world \<Rightarrow> 'r bolt \<Rightarrow> int \<Rightarrow> bool \<Rightarrow> bool \<Rightarrow> coord_def \<Rightarrow> bool" where
  "cell_open F w b r stop_at_statues stop_at_walls delta =
     (let T = fe_terrain F; loc = coord_add (pos (fe_ray_pos F) b) delta;
          dngn_feat = grd w loc
      in \<not> (rdist delta > rdist centre \<or> abs_sq delta > r * (r + 1)
             \<or> \<not> map_bounds T loc \<or> fe_is_sanctuary F w loc)
         \<and> \<not> ((feat_is_wall T dngn_feat \<or> dngn_feat = DNGN_SECRET_DOOR
                 \<or> feat_is_closed_door T dngn_feat)
                \<and> stop_at_walls \<and> \<not> (origin delta \<and> affects_wall b dngn_feat))
         \<and> \<not> (feat_is_solid T dngn_feat \<and> \<not> feat_is_wall T dngn_feat \<and> stop_at_statues))"

text \<open>The membership callbacks accept the cell at offset \<open>d\<close>.\<close>

definition fill_hits :: "('r, 'x, 'y) fill_env \<Rightarrow> 'r bolt \<Rightarrow> coord_def \<Rightarrow> bool" where
  "fill_hits F b d = aoe_hits (fe_aoe F) b (coord_add (pos (fe_ray_pos F) b) d)"

text \<open>The body of the \<^verbatim>\<open>for\<close> loop over the eight directions.\<close>

definition fill_next ::
  "('r, 'x, 'y) fill_env \<Rightarrow> ('x, 'y) world \<Rightarrow> 'r bolt \<Rightarrow> coord_def \<Rightarrow> int \<Rightarrow> int \<Rightarrow> bool \<Rightarrow> bool
   \<Rightarrow> coord_def \<Rightarrow> explosion_map \<Rightarrow> explosion_map" where
  "fill_next F w b delta cnt r ss sw c ma =
     (let new_delta = coord_add delta c in
      if rdist new_delta > rdist centre then ma
      else if ma (coord_add new_delta centre) \<le> cnt then ma
      else determine_affected_cells F w b ma new_delta (cnt + cadd delta c) r ss sw)"

text \<open>
  Arrival costs as paths: \<open>fill_reach D ok B s0 (d, c)\<close> says that a walk from the
  offset and cost \<open>s0\<close>, each step in a direction of the set \<open>D\<close> and inside the
  19 by 19 map, through cells that satisfy \<open>ok\<close>, with every cost on the way at most
  \<open>B\<close>, arrives at offset \<open>d\<close> with cost \<open>c\<close>. It depends on the set of directions,
  not on their order.
\<close>

inductive fill_reach ::
  "coord_def set \<Rightarrow> (coord_def \<Rightarrow> bool) \<Rightarrow> int \<Rightarrow> coord_def \<times> int \<Rightarrow> coord_def \<times> int \<Rightarrow> bool"
  for D ok B s0 where
  reach_start: "ok (fst s0) \<Longrightarrow> snd s0 \<le> B \<Longrightarrow> fill_reach D ok B s0 s0"
| reach_step: "fill_reach D ok B s0 (d, c) \<Longrightarrow> dir \<in> D \<Longrightarrow> rdist (coord_add d dir) \<le> rdist centre
     \<Longrightarrow> ok (coord_add d dir) \<Longrightarrow> c + cadd d dir \<le> B
     \<Longrightarrow> fill_reach D ok B s0 (coord_add d dir, c + cadd d dir)"

text \<open>
  The invariant of the search. \<open>V\<close> is the set of the offsets and costs at which the
  function was entered and passed its tests between the map \<open>m\<close> and the map \<open>m'\<close>,
  \<open>C\<close> the subset whose loop over the directions has finished: the map only decreases,
  each new entry is the cost of a visit, each visit of an accepted cell is recorded, and
  each neighbour of a finished visit was either already cheaper in the map or visited.
\<close>

definition visit_inv ::
  "coord_def set \<Rightarrow> (coord_def \<Rightarrow> bool) \<Rightarrow> int \<Rightarrow> (coord_def \<Rightarrow> bool) \<Rightarrow> explosion_map \<Rightarrow> explosion_map
   \<Rightarrow> (coord_def \<times> int) set \<Rightarrow> (coord_def \<times> int) set \<Rightarrow> bool" where
  "visit_inv D ok B hitp m m' V C =
     ((\<forall>x. m' x \<le> m x)
      \<and> (\<forall>x. m' x = m x \<or> (\<exists>e ce. (e, ce) \<in> V \<and> x = coord_add e centre \<and> m' x = ce \<and> hitp e))
      \<and> (\<forall>e ce. (e, ce) \<in> V \<longrightarrow> hitp e \<longrightarrow> m' (coord_add e centre) \<le> ce)
      \<and> (\<forall>e ce dir. (e, ce) \<in> C \<longrightarrow> dir \<in> D \<longrightarrow> rdist (coord_add e dir) \<le> rdist centre \<longrightarrow>
            m' (coord_add (coord_add e dir) centre) \<le> ce
            \<or> (ok (coord_add e dir) \<and> ce + cadd e dir \<le> B \<longrightarrow> (coord_add e dir, ce + cadd e dir) \<in> V)))"


section \<open>The collaborators of the propagation engine\<close>

text \<open>
  What \<^verbatim>\<open>monsters\<close> members and methods give for one monster, as far as the functions
  below ask: \<^verbatim>\<open>alive()\<close>, \<^verbatim>\<open>type\<close>, \<^verbatim>\<open>pos()\<close>, \<^verbatim>\<open>ac\<close>, \<^verbatim>\<open>attitude\<close>,
  \<^verbatim>\<open>mons_attitude(mon)\<close>, \<^verbatim>\<open>submerged()\<close>, \<^verbatim>\<open>visible_to(&you)\<close>, \<^verbatim>\<open>observable()\<close>, the
  resistances, \<^verbatim>\<open>is_icy()\<close>, \<^verbatim>\<open>mons_has_lifeforce\<close>, \<^verbatim>\<open>mons_wall_shielded\<close>,
  \<^verbatim>\<open>mons_sense_invis\<close>, \<^verbatim>\<open>god == GOD_FEDHAS\<close>, \<^verbatim>\<open>wont_attack()\<close> and the name.
\<close>

record mon_view =
  m_alive :: bool
  m_type :: monster_type
  m_pos :: coord_def
  m_ac :: int
  m_attitude :: mon_attitude_type
  m_mons_attitude :: mon_attitude_type
  m_submerged :: bool
  m_visible_to_you :: bool
  m_observable :: bool
  m_res_fire :: int
  m_res_steam :: int
  m_res_cold :: int
  m_res_elec :: int
  m_res_acid :: int
  m_res_poison :: int
  m_res_negative_energy :: int
  m_res_rotting :: bool
  m_is_icy :: bool
  m_has_lifeforce :: bool
  m_wall_shielded :: bool
  m_sense_invis :: bool
  m_god_is_fedhas :: bool
  m_wont_attack :: bool
  m_name :: string

type_synonym ('r, 'x, 'y) st = "'r bolt \<times> ('x, 'y) world"

text \<open>
  Everything the engine calls and the file does not define, in one record. The first
  group is the ray class (\<^verbatim>\<open>ray_def\<close>, \<^verbatim>\<open>find_ray\<close>, \<^verbatim>\<open>fallback_ray\<close>) and the table
  \<^verbatim>\<open>Compass\<close>; \<open>munge_ray\<close> is the search for a perturbed ray inside
  \<^verbatim>\<open>_munge_bounced_bolt\<close>, which computes with floating-point angles. The second group
  reads the world (\<open>feature_description w p a\<close> is the description with an article for
  \<open>a = True\<close>, plain otherwise; \<open>adjacent_cells p\<close> lists what an
  \<^verbatim>\<open>adjacent_iterator\<close> around \<open>p\<close> visits, the centre included). The third group is input and output: messages, prompts and random
  draws read and change only the component \<open>io\<close>. The fourth group changes the game
  proper; it has the bodies of \<^verbatim>\<open>affect_player\<close>, \<^verbatim>\<open>affect_monster\<close>,
  \<^verbatim>\<open>affect_ground\<close> and \<^verbatim>\<open>drop_object\<close> after their tracer exits
  (\<open>affect_player_live\<close> and so on), which apply damage, enchantments, clouds and items
  through the player, monster, cloud and item subsystems. The last group is the table of
  the callbacks behind the function pointers of a bolt: a hit callback and a damage
  callback read the bolt and may change the world.
\<close>

record ('r, 'x, 'y) env =
  hdr :: header_consts
  ter :: terrain_ops
  ray_pos :: "'r \<Rightarrow> coord_def"
  ray_advance :: "'r \<Rightarrow> 'r"
  ray_regress :: "'r \<Rightarrow> 'r"
  ray_bounce :: "(coord_def \<Rightarrow> bool) \<Rightarrow> 'r \<Rightarrow> 'r"
  find_ray :: "('x, 'y) world \<Rightarrow> coord_def \<Rightarrow> coord_def \<Rightarrow> 'r \<Rightarrow> bool \<times> 'r"
  fallback_ray :: "coord_def \<Rightarrow> coord_def \<Rightarrow> 'r \<Rightarrow> 'r"
  munge_ray :: "('x, 'y) world \<Rightarrow> 'r \<Rightarrow> 'r \<Rightarrow> 'r \<times> 'y"
  Compass :: "coord_def list"
  you_pos :: "('x, 'y) world \<Rightarrow> coord_def"
  see_cell :: "('x, 'y) world \<Rightarrow> coord_def \<Rightarrow> bool"
  can_smell :: "('x, 'y) world \<Rightarrow> bool"
  you_invisible :: "('x, 'y) world \<Rightarrow> bool"
  you_experience_level :: "('x, 'y) world \<Rightarrow> int"
  you_religion_is_fedhas :: "('x, 'y) world \<Rightarrow> bool"
  monster_at :: "('x, 'y) world \<Rightarrow> coord_def \<Rightarrow> nat option"
  menv :: "('x, 'y) world \<Rightarrow> nat \<Rightarrow> mon_view"
  cloud_at :: "('x, 'y) world \<Rightarrow> coord_def \<Rightarrow> bool"
  is_sanctuary :: "('x, 'y) world \<Rightarrow> coord_def \<Rightarrow> bool"
  is_bloodcovered :: "('x, 'y) world \<Rightarrow> coord_def \<Rightarrow> bool"
  silenced :: "('x, 'y) world \<Rightarrow> coord_def \<Rightarrow> bool"
  player_can_hear :: "('x, 'y) world \<Rightarrow> coord_def \<Rightarrow> bool"
  veto_disintegrate :: "('x, 'y) world \<Rightarrow> coord_def \<Rightarrow> bool"
  grid_distance :: "coord_def \<Rightarrow> coord_def \<Rightarrow> int"
  mons_att_wont_attack :: "mon_attitude_type \<Rightarrow> bool"
  mons_atts_aligned :: "mon_attitude_type \<Rightarrow> mon_attitude_type \<Rightarrow> bool"
  mons_power :: "monster_type \<Rightarrow> int"
  res_holy_energy :: "('x, 'y) world \<Rightarrow> nat \<Rightarrow> actor option \<Rightarrow> int"
  resist_adjust_damage :: "('x, 'y) world \<Rightarrow> nat \<Rightarrow> beam_type \<Rightarrow> int \<Rightarrow> int \<Rightarrow> bool \<Rightarrow> int"
  fedhas_protects :: "('x, 'y) world \<Rightarrow> nat \<Rightarrow> bool"
  harmless_to_player :: "'r bolt \<Rightarrow> ('x, 'y) world \<Rightarrow> bool"
  is_harmless :: "'r bolt \<Rightarrow> ('x, 'y) world \<Rightarrow> nat \<Rightarrow> bool"
  feature_description :: "('x, 'y) world \<Rightarrow> coord_def \<Rightarrow> bool \<Rightarrow> string"
  adjacent_cells :: "coord_def \<Rightarrow> coord_def list"
  raw_feature_description :: "dungeon_feature_type \<Rightarrow> string"
  item_name :: "('x, 'y) world \<Rightarrow> 'r bolt \<Rightarrow> string"
  article_a :: "string \<Rightarrow> string"
  is_god_acting :: "('x, 'y) world \<Rightarrow> bool"
  arena :: "('x, 'y) world \<Rightarrow> bool"
  pet_target_unset :: "('x, 'y) world \<Rightarrow> bool"
  sanctuary_time :: "('x, 'y) world \<Rightarrow> int"
  mpr :: "string \<Rightarrow> msg_channel_type \<Rightarrow> 'y \<Rightarrow> 'y"
  yesno :: "string \<Rightarrow> 'y \<Rightarrow> bool \<times> 'y"
  stop_attack_prompt :: "('x, 'y) world \<Rightarrow> nat \<Rightarrow> coord_def \<Rightarrow> bool \<times> 'y"
  random2 :: "int \<Rightarrow> 'y \<Rightarrow> int \<times> 'y"
  random_range :: "int \<Rightarrow> int \<Rightarrow> 'y \<Rightarrow> int \<times> 'y"
  random_flavour :: "'y \<Rightarrow> beam_type \<times> 'y"
  random_choose_weighted :: "(int \<times> beam_type) list \<Rightarrow> 'y \<Rightarrow> beam_type \<times> 'y"
  maybe_random2 :: "int \<Rightarrow> bool \<Rightarrow> 'y \<Rightarrow> int \<times> 'y"
  roll_damage :: "dice_def \<Rightarrow> 'y \<Rightarrow> int \<times> 'y"
  one_chance_in :: "int \<Rightarrow> 'y \<Rightarrow> bool \<times> 'y"
  coinflip :: "'y \<Rightarrow> bool \<times> 'y"
  set_terrain_changed :: "coord_def \<Rightarrow> ('x, 'y) world \<Rightarrow> ('x, 'y) world"
  place_cloud :: "cloud_type \<Rightarrow> coord_def \<Rightarrow> int \<Rightarrow> kill_category \<Rightarrow> killer_type \<Rightarrow> int
                  \<Rightarrow> ('x, 'y) world \<Rightarrow> ('x, 'y) world"
  big_cloud :: "cloud_type \<Rightarrow> kill_category \<Rightarrow> killer_type \<Rightarrow> coord_def \<Rightarrow> int \<Rightarrow> int
                \<Rightarrow> ('x, 'y) world \<Rightarrow> ('x, 'y) world"
  did_god_conduct :: "conduct_type \<Rightarrow> int \<Rightarrow> bool \<Rightarrow> ('x, 'y) world \<Rightarrow> ('x, 'y) world"
  fire_wall_hit_event :: "coord_def \<Rightarrow> int \<Rightarrow> coord_def \<Rightarrow> ('x, 'y) world \<Rightarrow> ('x, 'y) world"
  noisy :: "int \<Rightarrow> coord_def \<Rightarrow> int \<Rightarrow> ('x, 'y) world \<Rightarrow> bool \<times> ('x, 'y) world"
  simple_monster_message :: "nat \<Rightarrow> string \<Rightarrow> ('x, 'y) world \<Rightarrow> ('x, 'y) world"
  poison_monster :: "nat \<Rightarrow> kill_category \<Rightarrow> int \<Rightarrow> bool \<Rightarrow> ('x, 'y) world \<Rightarrow> ('x, 'y) world"
  miasma_monster :: "nat \<Rightarrow> kill_category \<Rightarrow> ('x, 'y) world \<Rightarrow> ('x, 'y) world"
  drain_exp :: "nat \<Rightarrow> actor option \<Rightarrow> ('x, 'y) world \<Rightarrow> ('x, 'y) world"
  draw_cell :: "'r bolt \<Rightarrow> coord_def \<Rightarrow> ('x, 'y) world \<Rightarrow> ('x, 'y) world"
  explosion_draw_cell :: "'r bolt \<Rightarrow> coord_def \<Rightarrow> ('x, 'y) world \<Rightarrow> ('x, 'y) world"
  explosion_delay :: "('x, 'y) world \<Rightarrow> ('x, 'y) world"
  canned_msg_nothing_happens :: "('x, 'y) world \<Rightarrow> ('x, 'y) world"
  xom_is_stimulated :: "int \<Rightarrow> ('x, 'y) world \<Rightarrow> ('x, 'y) world"
  set_pet_target :: "int \<Rightarrow> ('x, 'y) world \<Rightarrow> ('x, 'y) world"
  drop_object_live :: "('r, 'x, 'y) st \<Rightarrow> ('r, 'x, 'y) st"
  affect_player_live :: "('r, 'x, 'y) st \<Rightarrow> ('r, 'x, 'y) st"
  affect_monster_live :: "nat \<Rightarrow> ('r, 'x, 'y) st \<Rightarrow> ('r, 'x, 'y) st"
  affect_ground_live :: "('r, 'x, 'y) st \<Rightarrow> ('r, 'x, 'y) st"
  range_fn :: "nat \<Rightarrow> 'r range_func"
  hit_fn :: "nat \<Rightarrow> 'r bolt \<Rightarrow> actor \<Rightarrow> int \<Rightarrow> int \<Rightarrow> ('x, 'y) world \<Rightarrow> bool \<times> ('x, 'y) world"
  dmg_fn :: "nat \<Rightarrow> 'r bolt \<Rightarrow> actor \<Rightarrow> int \<Rightarrow> ('x, 'y) world
             \<Rightarrow> (bool \<times> int \<times> string) \<times> ('x, 'y) world"
  aoe_fn :: "nat \<Rightarrow> 'r bolt \<Rightarrow> coord_def \<Rightarrow> bool"

text \<open>An input or output action on the world: it changes \<open>io\<close> only.\<close>

definition io_set :: "('x, 'y) world \<Rightarrow> 'y \<Rightarrow> ('x, 'y) world" where
  "io_set w y = w\<lparr>io := y\<rparr>"

definition say :: "('r, 'x, 'y) env \<Rightarrow> string \<Rightarrow> msg_channel_type \<Rightarrow> ('x, 'y) world \<Rightarrow> ('x, 'y) world" where
  "say E m chan w = io_set w (mpr E m chan (io w))"

text \<open>\<^verbatim>\<open>bolt::pos\<close> with the ray class of the environment.\<close>

definition bpos :: "('r, 'x, 'y) env \<Rightarrow> 'r bolt \<Rightarrow> coord_def" where
  "bpos E b = pos (ray_pos E) b"

text \<open>\<^verbatim>\<open>bolt::emit_message\<close>: a message is printed once per firing.\<close>

definition emit_message ::
  "('r, 'x, 'y) env \<Rightarrow> msg_channel_type \<Rightarrow> string \<Rightarrow> ('r, 'x, 'y) st \<Rightarrow> ('r, 'x, 'y) st" where
  "emit_message E chan m s =
     (case s of (b, w) \<Rightarrow>
        (b\<lparr>message_cache := List.insert m (message_cache b)\<rparr>,
         if m \<in> set (message_cache b) then w else say E m chan w))"

text \<open>\<^verbatim>\<open>bolt::whose_kill\<close>.\<close>

definition whose_kill :: "('r, 'x, 'y) env \<Rightarrow> 'r bolt \<Rightarrow> ('x, 'y) world \<Rightarrow> kill_category" where
  "whose_kill E b w =
     (if YOU_KILL (hdr E) (thrower b) then KC_YOU
      else if MON_KILL (hdr E) (thrower b) then
        (if beam_source b = ANON_FRIENDLY_MONSTER (hdr E) then KC_FRIENDLY
         else if \<not> invalid_monster_index (hdr E) (beam_source b)
                 \<and> m_attitude (menv E w (nat (beam_source b))) = ATT_FRIENDLY then KC_FRIENDLY
         else KC_OTHER)
      else KC_OTHER)"

text \<open>\<^verbatim>\<open>bolt::is_bouncy\<close>.\<close>

definition is_bouncy :: "('r, 'x, 'y) env \<Rightarrow> 'r bolt \<Rightarrow> dungeon_feature_type \<Rightarrow> bool" where
  "is_bouncy E b feat =
     (if real_flavour b = BEAM_CHAOS \<and> feat_is_solid (ter E) feat then True
      else if is_enchantment (hdr E) b then False
      else if flavour b = BEAM_ELECTRICITY \<and> feat \<noteq> DNGN_METAL_WALL then True
      else if (flavour b = BEAM_FIRE \<or> flavour b = BEAM_COLD) \<and> feat = DNGN_GREEN_CRYSTAL_WALL
      then True
      else False)"

section \<open>Walls\<close>

text \<open>\<^verbatim>\<open>bolt::digging_wall_effect\<close>.\<close>

definition digging_wall_effect :: "('r, 'x, 'y) env \<Rightarrow> ('r, 'x, 'y) st \<Rightarrow> ('r, 'x, 'y) st" where
  "digging_wall_effect E s =
     (case s of (b, w) \<Rightarrow>
        (let p = bpos E b; feat = grd w p in
         if feat = DNGN_ROCK_WALL \<or> feat = DNGN_CLEAR_ROCK_WALL then
           (let w1 = w\<lparr>grd := (grd w)(p := DNGN_FLOOR)\<rparr>;
                w2 = set_terrain_changed E p w1;
                w3 = (if is_bloodcovered E w2 p
                      then w2\<lparr>pgrid_bloody := (pgrid_bloody w2)(p := False)\<rparr> else w2)
            in if \<not> msg_generated b then
                 (if \<not> silenced E w3 (you_pos E w3)
                  then (b\<lparr>obvious_effect := True, msg_generated := True\<rparr>,
                        say E ''You hear a grinding noise.'' MSGCH_SOUND w3)
                  else (b\<lparr>msg_generated := True\<rparr>, w3))
               else (b, w3))
         else if feat_is_wall (ter E) feat then (finish_beam b, w)
         else (b, w)))"

text \<open>\<^verbatim>\<open>bolt::fire_wall_effect\<close>.\<close>

definition fire_wall_effect :: "('r, 'x, 'y) env \<Rightarrow> ('r, 'x, 'y) st \<Rightarrow> ('r, 'x, 'y) st" where
  "fire_wall_effect E s =
     (case s of (b, w) \<Rightarrow>
        (let p = bpos E b; feat = grd w p in
         if feat \<noteq> DNGN_WAX_WALL \<and> feat \<noteq> DNGN_TREES then (finish_beam b, w)
         else
           (let s1 =
              (if feat = DNGN_WAX_WALL then
                 (if \<not> is_superhot b then
                    (if flavour b \<noteq> BEAM_HELLFIRE \<and> feat = DNGN_WAX_WALL then
                       (if see_cell E w p
                        then emit_message E MSGCH_PLAIN ''The wax appears to soften slightly.'' (b, w)
                        else if can_smell E w
                        then emit_message E MSGCH_PLAIN ''You smell warm wax.'' (b, w)
                        else (b, w))
                     else (b, w))
                  else
                    (let w1 = w\<lparr>grd := (grd w)(p := DNGN_FLOOR)\<rparr>;
                         (b2, w2) = (if see_cell E w1 p
                                     then emit_message E MSGCH_PLAIN ''The wax bubbles and burns!'' (b, w1)
                                     else if can_smell E w1
                                     then emit_message E MSGCH_PLAIN ''You smell burning wax.'' (b, w1)
                                     else (b, w1));
                         (n, y) = random2 E 10 (io w2);
                         w3 = place_cloud E CLOUD_FIRE p (n + 15) (whose_kill E b2 w2) (killer b2) (-1)
                                (io_set w2 y)
                     in (b2\<lparr>obvious_effect := True\<rparr>, w3)))
               else
                 (if is_superhot b then
                    (let w1 = w\<lparr>grd := (grd w)(p := DNGN_FLOOR)\<rparr>;
                         (b2, w2) = (if see_cell E w1 p
                                     then emit_message E MSGCH_PLAIN ''The tree burns like a torch!'' (b, w1)
                                     else if can_smell E w1
                                     then emit_message E MSGCH_PLAIN ''You smell burning wood.'' (b, w1)
                                     else (b, w1));
                         w3 = (if whose_kill E b2 w2 = KC_YOU
                               then did_god_conduct E DID_KILL_PLANT 1 (effect_known b2) w2
                               else if whose_kill E b2 w2 = KC_FRIENDLY
                               then did_god_conduct E DID_ALLY_KILLED_PLANT 1 (effect_known b2) w2
                               else w2);
                         (n, y) = random2 E 30 (io w3);
                         w4 = place_cloud E CLOUD_FOREST_FIRE p (n + 25) (whose_kill E b2 w3)
                                (killer b2) 5 (io_set w3 y)
                     in (b2\<lparr>obvious_effect := True\<rparr>, w4))
                  else (b, w)))
            in (finish_beam (fst s1), snd s1))))"

text \<open>\<^verbatim>\<open>bolt::nuke_wall_effect\<close>.\<close>

definition nuke_wall_effect :: "('r, 'x, 'y) env \<Rightarrow> ('r, 'x, 'y) st \<Rightarrow> ('r, 'x, 'y) st" where
  "nuke_wall_effect E s =
     (case s of (b, w) \<Rightarrow>
        (let p = bpos E b in
         if veto_disintegrate E w p then (finish_beam b, w)
         else
           (let feat = grd w p;
                s1 =
                  (if feat = DNGN_ROCK_WALL \<or> feat = DNGN_WAX_WALL
                      \<or> feat = DNGN_CLEAR_ROCK_WALL \<or> feat = DNGN_GRANITE_STATUE then
                     (let w1 = (if is_bloodcovered E w p
                                then w\<lparr>pgrid_bloody := (pgrid_bloody w)(p := False)\<rparr> else w);
                          w2 = w1\<lparr>grd := (grd w1)(p := DNGN_FLOOR)\<rparr>
                      in if player_can_hear E w2 p
                         then (b\<lparr>obvious_effect := True\<rparr>,
                               say E ''You hear a grinding noise.'' MSGCH_SOUND w2)
                         else (b, w2))
                   else if feat = DNGN_ORCISH_IDOL then
                     (let w1 = w\<lparr>grd := (grd w)(p := DNGN_FLOOR)\<rparr>;
                          w2 = (if is_bloodcovered E w1 p
                                then w1\<lparr>pgrid_bloody := (pgrid_bloody w1)(p := False)\<rparr> else w1);
                          w3 = (if player_can_hear E w2 p then
                                  (if \<not> see_cell E w2 p
                                   then say E ''You hear a hideous screaming!'' MSGCH_SOUND w2
                                   else say E ''The idol screams as its substance crumbles away!''
                                          MSGCH_SOUND w2)
                                else if see_cell E w2 p
                                then say E ''The idol twists and shakes as its substance crumbles away!''
                                       MSGCH_PLAIN w2
                                else w2);
                          w4 = (if beam_source b = NON_MONSTER (hdr E)
                                then did_god_conduct E DID_DESTROY_ORCISH_IDOL 8 True w3 else w3)
                      in (b\<lparr>obvious_effect := True\<rparr>, w4))
                   else (b, w))
            in (finish_beam (fst s1), snd s1))))"

text \<open>\<^verbatim>\<open>bolt::affect_wall\<close>.\<close>

definition affect_wall :: "('r, 'x, 'y) env \<Rightarrow> ('r, 'x, 'y) st \<Rightarrow> ('r, 'x, 'y) st" where
  "affect_wall E s =
     (case s of (b, w) \<Rightarrow>
        if is_tracer b then (b, w)
        else
          (let (b1, w1) =
                 (if flavour b = BEAM_DIGGING then digging_wall_effect E (b, w)
                  else if is_fiery b then fire_wall_effect E (b, w)
                  else if flavour b = BEAM_DISINTEGRATION \<or> flavour b = BEAM_NUKE
                  then nuke_wall_effect E (b, w)
                  else (b, w))
           in if cell_is_solid (ter E) w1 (bpos E b1) then (finish_beam b1, w1) else (b1, w1)))"


text \<open>A \<^verbatim>\<open>do ray.regress(); while (cond)\<close> loop. Nothing in the file bounds it, so the
  result is \<open>None\<close> when it does not end.\<close>

partial_function (option) regress_while :: "('r \<Rightarrow> 'r) \<Rightarrow> ('r \<Rightarrow> bool) \<Rightarrow> 'r \<Rightarrow> 'r option" where
  "regress_while reg cond r =
     (let r' = reg r in if cond r' then regress_while reg cond r' else Some r')"

declare regress_while.simps [code]

text \<open>\<^verbatim>\<open>_munge_bounced_bolt\<close>: only a chaos bolt is changed; it gets a perturbed ray and
  the range that the bounce spent back.\<close>

definition munge_bounced_bolt ::
  "('r, 'x, 'y) env \<Rightarrow> 'r bolt \<Rightarrow> 'r \<Rightarrow> ('r, 'x, 'y) st \<Rightarrow> ('r, 'x, 'y) st" where
  "munge_bounced_bolt E old_bolt old_ray s =
     (case s of (new_bolt, w) \<Rightarrow>
        if real_flavour new_bolt \<noteq> BEAM_CHAOS then (new_bolt, w)
        else
          (let (r', y) = munge_ray E w old_ray (ray new_bolt);
               range_spent = range_used new_bolt - range_used old_bolt
           in (new_bolt\<lparr>ray := r', range_b := range_b new_bolt + range_spent\<rparr>, io_set w y)))"

text \<open>\<^verbatim>\<open>bolt::bounce\<close>.\<close>

definition bounce :: "('r, 'x, 'y) env \<Rightarrow> ('r, 'x, 'y) st \<Rightarrow> ('r, 'x, 'y) st option" where
  "bounce E s =
     (case s of (b, w) \<Rightarrow>
        (case regress_while (ray_regress E) (\<lambda>r. feat_is_solid (ter E) (grd w (ray_pos E r))) (ray b) of
           None \<Rightarrow> None
         | Some r1 \<Rightarrow>
             (let p = ray_pos E r1;
                  rg = (\<lambda>d. coord_add p d \<in> set (adjacent_cells E p)
                             \<and> feat_is_solid (ter E) (grd w (coord_add p d)));
                  b1 = b\<lparr>ray := ray_bounce E rg r1, bounce_pos := p, range_used := range_used b + 2\<rparr>
              in Some (munge_bounced_bolt E b (ray b) (b1, w)))))"

text \<open>\<^verbatim>\<open>bolt::hit_wall\<close>; the result says whether the beam ended by hitting the wall.\<close>

definition hit_wall :: "('r, 'x, 'y) env \<Rightarrow> ('r, 'x, 'y) st \<Rightarrow> (bool \<times> ('r, 'x, 'y) st) option" where
  "hit_wall E s =
     (case s of (b, w) \<Rightarrow>
        (let feat = grd w (bpos E b);
             warn = (is_tracer b \<and> YOU_KILL (hdr E) (thrower b) \<and> in_bounds (ter E) (target b)
                     \<and> \<not> passed_target b \<and> bpos E b \<noteq> target b \<and> bpos E b \<noteq> source_b b
                     \<and> count_t (foe_info b) = 0 \<and> flavour b \<noteq> BEAM_DIGGING
                     \<and> real_flavour_rng (hdr E) (flavour b) \<and> bounces b = 0 \<and> reflections b = 0
                     \<and> see_cell E w (target b) \<and> \<not> feat_is_solid (ter E) (grd w (target b)));
             prompt = ''Your line of fire to ''
                      @ (case monster_at E w (target b) of
                           Some mon \<Rightarrow> (if m_observable (menv E w mon) then m_name (menv E w mon)
                                         else ''the targeted '' @ feature_description E w (target b) False)
                         | None \<Rightarrow> ''the targeted '' @ feature_description E w (target b) False)
                      @ '' is blocked by '' @ feature_description E w (bpos E b) True
                      @ ''. Continue anyway?'';
             (go_on, w0) = (if warn then (let (a, y) = yesno E prompt (io w) in (a, io_set w y))
                            else (True, w))
         in if \<not> go_on then Some (False, (finish_beam (b\<lparr>beam_cancelled := True\<rparr>), w0))
            else
              (let w1 = (if \<not> is_explosion b \<and> \<not> is_tracer b \<and> monster_at E w0 (bpos E b) = None
                            \<and> (flavour b = BEAM_MISSILE \<or> flavour b = BEAM_MMISSILE)
                         then fire_wall_hit_event E (bpos E b) (beam_source b) (target b) w0
                         else w0)
               in if affects_wall b feat then Some (False, affect_wall E (b, w1))
                  else if is_bouncy E b feat \<and> \<not> in_explosion_phase b then
                    (case bounce E (b, w1) of None \<Rightarrow> None | Some s' \<Rightarrow> Some (False, s'))
                  else if bpos E b \<noteq> source_b b
                          \<and> ((is_explosion b \<and> \<not> in_explosion_phase b) \<or> drop_item b) then
                    (case regress_while (ray_regress E)
                            (\<lambda>r. ray_pos E r \<noteq> source_b b \<and> cell_is_solid (ter E) w1 (ray_pos E r))
                            (ray b) of
                       None \<Rightarrow> None
                     | Some r1 \<Rightarrow>
                         (let b1 = b\<lparr>ray := r1\<rparr>;
                              b2 = (if is_explosion b1 \<and> \<not> is_tracer b1
                                    then b1\<lparr>target := ray_pos E r1\<rparr> else b1)
                          in Some (True, (finish_beam b2, w1))))
                  else Some (True, (finish_beam b, w1)))))"

section \<open>Callbacks\<close>

text \<open>\<^verbatim>\<open>bolt::apply_hit_funcs\<close>: every callback is called, the results are or-ed.\<close>

definition apply_hit_funcs ::
  "('r, 'x, 'y) env \<Rightarrow> 'r bolt \<Rightarrow> actor \<Rightarrow> int \<Rightarrow> int \<Rightarrow> ('x, 'y) world \<Rightarrow> bool \<times> ('x, 'y) world" where
  "apply_hit_funcs E b victim dmg corpse w =
     fold (\<lambda>f (affected, w'). (case hit_fn E f b victim dmg corpse w' of
                                  (r, w'') \<Rightarrow> (r \<or> affected, w'')))
          (hit_funcs b) (False, w)"

text \<open>\<^verbatim>\<open>bolt::apply_dmg_funcs\<close>: the callbacks rewrite the damage in turn and may add a
  message; the first that returns true stops the loop and makes the result false.\<close>

fun dmg_funcs_loop ::
  "('r, 'x, 'y) env \<Rightarrow> nat list \<Rightarrow> 'r bolt \<Rightarrow> actor \<Rightarrow> int \<Rightarrow> string list \<Rightarrow> ('x, 'y) world
   \<Rightarrow> (bool \<times> int \<times> string list) \<times> ('x, 'y) world" where
  "dmg_funcs_loop E [] b victim dmg messages w = ((True, dmg, messages), w)"
| "dmg_funcs_loop E (f # fs) b victim dmg messages w =
     (case dmg_fn E f b victim dmg w of
        ((stop, dmg', dmg_msg), w') \<Rightarrow>
          if stop then ((False, dmg', messages), w')
          else dmg_funcs_loop E fs b victim dmg'
                 (if dmg_msg \<noteq> [] then messages @ [dmg_msg] else messages) w')"

definition apply_dmg_funcs ::
  "('r, 'x, 'y) env \<Rightarrow> 'r bolt \<Rightarrow> actor \<Rightarrow> int \<Rightarrow> string list \<Rightarrow> ('x, 'y) world
   \<Rightarrow> (bool \<times> int \<times> string list) \<times> ('x, 'y) world" where
  "apply_dmg_funcs E b victim dmg messages w =
     dmg_funcs_loop E (damage_funcs b) b victim dmg messages w"

text \<open>Printing a list of messages on one channel.\<close>

definition say_all ::
  "('r, 'x, 'y) env \<Rightarrow> string list \<Rightarrow> msg_channel_type \<Rightarrow> ('x, 'y) world \<Rightarrow> ('x, 'y) world" where
  "say_all E ms chan w = fold (\<lambda>m w'. say E m chan w') ms w"

text \<open>\<open>range_used += range_used_on_hit(victim)\<close>.\<close>

definition add_range_used_on_hit :: "('r, 'x, 'y) env \<Rightarrow> actor \<Rightarrow> 'r bolt \<Rightarrow> 'r bolt" where
  "add_range_used_on_hit E victim b =
     b\<lparr>range_used := range_used b + range_used_on_hit (hdr E) (range_fn E) b victim\<rparr>"


section \<open>The player in the path\<close>

text \<open>\<^verbatim>\<open>bolt::found_player\<close>.\<close>

definition found_player :: "('r, 'x, 'y) env \<Rightarrow> 'r bolt \<Rightarrow> ('x, 'y) world \<Rightarrow> bool" where
  "found_player E b w =
     (let needs_fuzz = (is_tracer b \<and> \<not> can_see_invis b \<and> you_invisible E w
                        \<and> \<not> YOU_KILL (hdr E) (thrower b));
          dist = (if needs_fuzz then 2 else 0)
      in grid_distance E (bpos E b) (you_pos E w) \<le> dist)"

text \<open>\<^verbatim>\<open>bolt::fuzz_invis_tracer\<close>; the two coordinates of the fuzz are drawn in the order
  written.\<close>

definition fuzz_invis_tracer :: "('r, 'x, 'y) env \<Rightarrow> ('r, 'x, 'y) st \<Rightarrow> bool \<times> ('r, 'x, 'y) st" where
  "fuzz_invis_tracer E s =
     (case s of (b, w) \<Rightarrow>
        (let dist = grid_distance E (target b) (you_pos E w) in
         if dist > 2 then (False, (b, w))
         else
           (let beam_src = beam_source_as_target (hdr E) b in
            if beam_src \<noteq> MHITNOT (hdr E) \<and> beam_src \<noteq> MHITYOU (hdr E)
               \<and> m_sense_invis (menv E w (nat beam_src))
            then (dist = 0, (b, w))
            else
              (let (fx, y1) = random_range E (-2) 2 (io w);
                   (fy, y2) = random_range E (-2) 2 y1;
                   newtarget = coord_add (target b) (coord fx fy)
               in (True, ((if in_bounds (ter E) newtarget then b\<lparr>target := newtarget\<rparr> else b),
                          io_set w y2))))))"

text \<open>Adding the player to a tally: \<^verbatim>\<open>count++; power += you.experience_level\<close>.\<close>

definition tally :: "tracer_info \<Rightarrow> int \<Rightarrow> tracer_info" where
  "tally t p = t\<lparr>count_t := count_t t + 1, power_t := power_t t + p\<rparr>"

text \<open>\<^verbatim>\<open>bolt::tracer_affect_player\<close>.\<close>

definition tracer_affect_player :: "('r, 'x, 'y) env \<Rightarrow> ('r, 'x, 'y) st \<Rightarrow> ('r, 'x, 'y) st" where
  "tracer_affect_player E s =
     (case s of (b, w) \<Rightarrow>
        (let (b1, w1) =
               (if YOU_KILL (hdr E) (thrower b) then
                  (if \<not> aimed_at_feet b \<and> \<not> dont_stop_player b \<and> \<not> harmless_to_player E b w then
                     (let (a, y) = yesno E ''That beam is likely to hit you. Continue anyway?'' (io w)
                      in if a
                         then (b\<lparr>friend_info := tally (friend_info b) (you_experience_level E w),
                                 dont_stop_player := True\<rparr>, io_set w y)
                         else (finish_beam (b\<lparr>beam_cancelled := True\<rparr>), io_set w y))
                   else (b, w))
                else
                  (let (counts, (b', w')) =
                         (if can_see_invis b \<or> \<not> you_invisible E w then (True, (b, w))
                          else fuzz_invis_tracer E (b, w))
                   in if counts then
                        (if mons_att_wont_attack E (attitude b')
                         then (b'\<lparr>friend_info := tally (friend_info b') (you_experience_level E w')\<rparr>, w')
                         else (b'\<lparr>foe_info := tally (foe_info b') (you_experience_level E w')\<rparr>, w'))
                      else (b', w')));
             ((ok, dummy, messages), w2) = apply_dmg_funcs E b1 The_Player 0 [] w1;
             w3 = say_all E messages MSGCH_WARN w2;
             (aff, w4) = apply_hit_funcs E b1 The_Player 0 (-1) w3
         in (add_range_used_on_hit E The_Player b1, w4)))"

text \<open>\<^verbatim>\<open>bolt::affect_player\<close>. After the tracer exit the function interrupts the player,
  resolves enchantments, rolls to hit and applies damage to the player; that part is
  \<open>affect_player_live\<close>.\<close>

definition affect_player :: "('r, 'x, 'y) env \<Rightarrow> ('r, 'x, 'y) st \<Rightarrow> ('r, 'x, 'y) st" where
  "affect_player E s =
     (case s of (b, w) \<Rightarrow>
        if is_explosion b \<and> \<not> in_explosion_phase b then (finish_beam b, w)
        else if flavour b = BEAM_DIGGING then (b, w)
        else if is_tracer b then tracer_affect_player E (b, w)
        else affect_player_live E (b, w))"

section \<open>Damage to a monster\<close>

text \<open>The message of \<^verbatim>\<open>simple_monster_message\<close>, printed only with flavoured effects.\<close>

definition flav_msg ::
  "('r, 'x, 'y) env \<Rightarrow> bool \<Rightarrow> nat \<Rightarrow> string \<Rightarrow> ('x, 'y) world \<Rightarrow> ('x, 'y) world" where
  "flav_msg E doFlavouredEffects monster m w =
     (if doFlavouredEffects then simple_monster_message E monster m w else w)"

text \<open>
  \<^verbatim>\<open>mons_adjust_flavoured\<close>: the damage that the monster takes from a flavoured attack.
  The result is the number, the bolt (the function sets \<^verbatim>\<open>obvious_effect\<close>) and the
  world. \<^verbatim>\<open>int\<close> arithmetic is that of the integers here; division truncates. Each
  \<^verbatim>\<open>case\<close> label of the \<^verbatim>\<open>switch\<close> on the flavour is a function of its own;
  \<open>original\<close> is the damage on entry.
\<close>

type_synonym ('r, 'x, 'y) flavoured =
  "('r, 'x, 'y) env \<Rightarrow> nat \<Rightarrow> 'r bolt \<Rightarrow> int \<Rightarrow> bool \<Rightarrow> ('x, 'y) world
   \<Rightarrow> int \<times> 'r bolt \<times> ('x, 'y) world"

text \<open>The message shared by several labels: \<^verbatim>\<open>(original > 0) ? " completely resists."
  : " appears unharmed."\<close>.\<close>

definition resisted_msg ::
  "('r, 'x, 'y) env \<Rightarrow> bool \<Rightarrow> nat \<Rightarrow> int \<Rightarrow> ('x, 'y) world \<Rightarrow> ('x, 'y) world" where
  "resisted_msg E doFlavouredEffects monster original w =
     flav_msg E doFlavouredEffects monster
       (if original > 0 then '' completely resists.'' else '' appears unharmed.'') w"

text \<open>\<^verbatim>\<open>case BEAM_FIRE: case BEAM_STEAM:\<close>\<close>

definition maf_fire_steam :: "('r, 'x, 'y) flavoured" where
  "maf_fire_steam E monster pbolt original doFlavouredEffects w =
     (let mv = menv E w monster; fl = flavour pbolt;
          hurted = resist_adjust_damage E w monster fl
                     (if fl = BEAM_FIRE then m_res_fire mv else m_res_steam mv) original True
      in if hurted = 0 then (hurted, pbolt, resisted_msg E doFlavouredEffects monster original w)
         else if original > hurted
         then (hurted, pbolt, flav_msg E doFlavouredEffects monster '' resists.'' w)
         else if original < hurted \<and> doFlavouredEffects then
           (hurted, pbolt,
            (if m_is_icy mv then simple_monster_message E monster '' melts!'' w
             else if m_type mv = MONS_BUSH then simple_monster_message E monster '' is on fire!'' w
             else if fl = BEAM_FIRE then simple_monster_message E monster '' is burned terribly!'' w
             else simple_monster_message E monster '' is scalded terribly!'' w))
         else (hurted, pbolt, w))"

text \<open>\<^verbatim>\<open>case BEAM_COLD:\<close>\<close>

definition maf_cold :: "('r, 'x, 'y) flavoured" where
  "maf_cold E monster pbolt original doFlavouredEffects w =
     (let hurted = resist_adjust_damage E w monster (flavour pbolt)
                     (m_res_cold (menv E w monster)) original True
      in if hurted = 0 then (hurted, pbolt, resisted_msg E doFlavouredEffects monster original w)
         else if original > hurted
         then (hurted, pbolt, flav_msg E doFlavouredEffects monster '' resists.'' w)
         else if original < hurted
         then (hurted, pbolt, flav_msg E doFlavouredEffects monster '' is frozen!'' w)
         else (hurted, pbolt, w))"

text \<open>\<^verbatim>\<open>case BEAM_ELECTRICITY:\<close>\<close>

definition maf_electricity :: "('r, 'x, 'y) flavoured" where
  "maf_electricity E monster pbolt original doFlavouredEffects w =
     (let hurted = resist_adjust_damage E w monster (flavour pbolt)
                     (m_res_elec (menv E w monster)) original True
      in if hurted = 0 then (hurted, pbolt, resisted_msg E doFlavouredEffects monster original w)
         else (hurted, pbolt, w))"

text \<open>\<^verbatim>\<open>case BEAM_ACID:\<close>\<close>

definition maf_acid :: "('r, 'x, 'y) flavoured" where
  "maf_acid E monster pbolt original doFlavouredEffects w =
     (let hurted = resist_adjust_damage E w monster (flavour pbolt)
                     (m_res_acid (menv E w monster)) original True
      in if hurted = 0 then (hurted, pbolt, resisted_msg E doFlavouredEffects monster original w)
         else (hurted, pbolt, w))"

text \<open>\<^verbatim>\<open>case BEAM_POISON:\<close>; \<^verbatim>\<open>poison_monster\<close> is called with its default level 1.\<close>

definition maf_poison :: "('r, 'x, 'y) flavoured" where
  "maf_poison E monster pbolt original doFlavouredEffects w =
     (let res = m_res_poison (menv E w monster);
          hurted = resist_adjust_damage E w monster (flavour pbolt) res original True
      in if hurted = 0 \<and> res > 0
         then (hurted, pbolt, resisted_msg E doFlavouredEffects monster original w)
         else if res \<le> 0 \<and> doFlavouredEffects then
           (let (one, y) = one_chance_in E 3 (io w); w1 = io_set w y
            in if \<not> one
               then (hurted, pbolt, poison_monster E monster (whose_kill E pbolt w1) 1 False w1)
               else (hurted, pbolt, w1))
         else (hurted, pbolt, w))"

text \<open>\<^verbatim>\<open>case BEAM_POISON_ARROW:\<close>\<close>

definition maf_poison_arrow :: "('r, 'x, 'y) flavoured" where
  "maf_poison_arrow E monster pbolt original doFlavouredEffects w =
     (let hurted = resist_adjust_damage E w monster (flavour pbolt)
                     (m_res_poison (menv E w monster)) original False
      in if hurted < original then
           (if doFlavouredEffects then
              (let w1 = simple_monster_message E monster '' partially resists.'' w
               in if m_has_lifeforce (menv E w1 monster)
                  then (hurted, pbolt, poison_monster E monster (whose_kill E pbolt w1) 2 True w1)
                  else (hurted, pbolt, w1))
            else (hurted, pbolt, w))
         else if doFlavouredEffects
         then (hurted, pbolt, poison_monster E monster (whose_kill E pbolt w) 4 False w)
         else (hurted, pbolt, w))"

text \<open>\<^verbatim>\<open>case BEAM_NEG:\<close>\<close>

definition maf_neg :: "('r, 'x, 'y) flavoured" where
  "maf_neg E monster pbolt original doFlavouredEffects w =
     (if m_res_negative_energy (menv E w monster) = 3
      then (0, pbolt, flav_msg E doFlavouredEffects monster '' completely resists.'' w)
      else if \<not> doFlavouredEffects then (original, pbolt, w)
      else
        (let pbolt1 = (if m_observable (menv E w monster) then pbolt\<lparr>obvious_effect := True\<rparr>
                       else pbolt);
             w1 = drain_exp E monster (agent (hdr E) pbolt1) w;
             w2 = (if YOU_KILL (hdr E) (thrower pbolt1)
                   then did_god_conduct E DID_NECROMANCY 2 (effect_known pbolt1) w1 else w1)
         in (original, pbolt1, w2)))"

text \<open>\<^verbatim>\<open>case BEAM_MIASMA:\<close>\<close>

definition maf_miasma :: "('r, 'x, 'y) flavoured" where
  "maf_miasma E monster pbolt original doFlavouredEffects w =
     (if m_res_rotting (menv E w monster)
      then (0, pbolt, flav_msg E doFlavouredEffects monster '' completely resists.'' w)
      else if \<not> doFlavouredEffects then (original, pbolt, w)
      else
        (let w1 = miasma_monster E monster (whose_kill E pbolt w) w;
             w2 = (if YOU_KILL (hdr E) (thrower pbolt)
                   then did_god_conduct E DID_UNCLEAN 2 (effect_known pbolt) w1 else w1)
         in (original, pbolt, w2)))"

text \<open>\<^verbatim>\<open>case BEAM_HOLY:\<close>\<close>

definition maf_holy :: "('r, 'x, 'y) flavoured" where
  "maf_holy E monster pbolt original doFlavouredEffects w =
     (let rhe = res_holy_energy E w monster (agent (hdr E) pbolt);
          hurted = (if rhe > 0 then 0
                    else if rhe = 0 then original sdiv 2
                    else if rhe < -1 then (original * 3) sdiv 2
                    else original)
      in (hurted, pbolt,
          flav_msg E doFlavouredEffects monster
            (if hurted = 0 then '' appears unharmed.'' else '' writhes in agony!'') w))"

text \<open>\<^verbatim>\<open>case BEAM_ICE:\<close>\<close>

definition maf_ice :: "('r, 'x, 'y) flavoured" where
  "maf_ice E monster pbolt original doFlavouredEffects w =
     (let hurted = resist_adjust_damage E w monster (flavour pbolt)
                     (m_res_cold (menv E w monster)) original True
      in if hurted < original
         then (hurted, pbolt, flav_msg E doFlavouredEffects monster '' partially resists.'' w)
         else if hurted > original
         then (hurted, pbolt, flav_msg E doFlavouredEffects monster '' is frozen!'' w)
         else (hurted, pbolt, w))"

text \<open>\<^verbatim>\<open>case BEAM_LAVA:\<close>\<close>

definition maf_lava :: "('r, 'x, 'y) flavoured" where
  "maf_lava E monster pbolt original doFlavouredEffects w =
     (let hurted = resist_adjust_damage E w monster (flavour pbolt)
                     (m_res_fire (menv E w monster)) original True
      in if hurted < original
         then (hurted, pbolt, flav_msg E doFlavouredEffects monster '' partially resists.'' w)
         else if hurted > original then
           (if m_is_icy (menv E w monster)
            then (hurted, pbolt, flav_msg E doFlavouredEffects monster '' melts!'' w)
            else (hurted, pbolt, flav_msg E doFlavouredEffects monster '' is burned terribly!'' w))
         else (hurted, pbolt, w))"

text \<open>\<^verbatim>\<open>case BEAM_HELLFIRE:\<close>\<close>

definition maf_hellfire :: "('r, 'x, 'y) flavoured" where
  "maf_hellfire E monster pbolt original doFlavouredEffects w =
     (let resist = m_res_fire (menv E w monster) in
      if resist > 2 then (0, pbolt, resisted_msg E doFlavouredEffects monster original w)
      else if resist > 0
      then (original sdiv 2, pbolt,
            flav_msg E doFlavouredEffects monster '' partially resists.'' w)
      else if resist < 0 then
        ((original * 12) sdiv 10, pbolt,
         (if m_is_icy (menv E w monster)
          then flav_msg E doFlavouredEffects monster '' melts!'' w
          else flav_msg E doFlavouredEffects monster '' is burned terribly!'' w))
      else (original, pbolt, w))"

text \<open>\<^verbatim>\<open>case BEAM_SPORE:\<close>\<close>

definition maf_spore :: "('r, 'x, 'y) flavoured" where
  "maf_spore E monster pbolt original doFlavouredEffects w =
     (if m_type (menv E w monster) = MONS_BALLISTOMYCETE then (0, pbolt, w)
      else (original, pbolt, w))"

text \<open>The \<^verbatim>\<open>switch\<close>.\<close>

definition mons_adjust_flavoured :: "('r, 'x, 'y) flavoured" where
  "mons_adjust_flavoured E monster pbolt hurted doFlavouredEffects w =
     (let fl = flavour pbolt in
      if fl = BEAM_FIRE \<or> fl = BEAM_STEAM
      then maf_fire_steam E monster pbolt hurted doFlavouredEffects w
      else if fl = BEAM_COLD then maf_cold E monster pbolt hurted doFlavouredEffects w
      else if fl = BEAM_ELECTRICITY then maf_electricity E monster pbolt hurted doFlavouredEffects w
      else if fl = BEAM_ACID then maf_acid E monster pbolt hurted doFlavouredEffects w
      else if fl = BEAM_POISON then maf_poison E monster pbolt hurted doFlavouredEffects w
      else if fl = BEAM_POISON_ARROW then maf_poison_arrow E monster pbolt hurted doFlavouredEffects w
      else if fl = BEAM_NEG then maf_neg E monster pbolt hurted doFlavouredEffects w
      else if fl = BEAM_MIASMA then maf_miasma E monster pbolt hurted doFlavouredEffects w
      else if fl = BEAM_HOLY then maf_holy E monster pbolt hurted doFlavouredEffects w
      else if fl = BEAM_ICE then maf_ice E monster pbolt hurted doFlavouredEffects w
      else if fl = BEAM_LAVA then maf_lava E monster pbolt hurted doFlavouredEffects w
      else if fl = BEAM_HELLFIRE then maf_hellfire E monster pbolt hurted doFlavouredEffects w
      else if fl = BEAM_SPORE then maf_spore E monster pbolt hurted doFlavouredEffects w
      else (hurted, pbolt, w))"

text \<open>
  \<^verbatim>\<open>bolt::determine_damage\<close>. The result is whether the monster is to be handled, the
  damage before the armour (\<^verbatim>\<open>preac\<close>), after it (\<^verbatim>\<open>postac\<close>) and after the resistances
  (\<^verbatim>\<open>final\<close>), and the messages of the damage callbacks.
\<close>

definition determine_damage ::
  "('r, 'x, 'y) env \<Rightarrow> nat \<Rightarrow> ('r, 'x, 'y) st
   \<Rightarrow> (bool \<times> int \<times> int \<times> int \<times> string list) \<times> ('r, 'x, 'y) st" where
  "determine_damage E mon s =
     (case s of (b, w) \<Rightarrow>
        (let originator_worships_fedhas =
               (if \<not> is_explosion b \<and> beam_source b = NON_MONSTER (hdr E)
                then you_religion_is_fedhas E w
                else if \<not> is_explosion b \<and> beam_source b \<ge> 0 \<and> beam_source b < MAX_MONSTERS (hdr E)
                then m_god_is_fedhas (menv E w (nat (beam_source b)))
                else False)
         in if \<not> is_enchantment (hdr E) b \<and> attitude b = m_attitude (menv E w mon)
               \<and> originator_worships_fedhas \<and> fedhas_protects E w mon
            then ((False, 0, 0, 0, []),
                  (b, if \<not> is_tracer b
                      then say E (''Fedhas protects ''
                                  @ (if attitude b = ATT_FRIENDLY then ''your'' else ''a'')
                                  @ '' plant from harm.'') MSGCH_GOD w
                      else w))
            else
              (let (preac0, w1) =
                     (if is_tracer b then ((num (damage b) * (size_d (damage b) + 1)) sdiv 2, w)
                      else (let (d, y) = roll_damage E (damage b) (io w) in (d, io_set w y)));
                   ((ok, preac1, messages), w2) = apply_dmg_funcs E b (A_Monster mon) preac0 [] w1
               in if \<not> ok then ((False, preac1, 0, 0, messages), (b, w2))
                  else if m_submerged (menv E w2 mon) \<and> \<not> aimed_at_spot b
                  then ((False, preac1, 0, 0, messages), (b, w2))
                  else if m_submerged (menv E w2 mon) \<and> flavour b = BEAM_ELECTRICITY
                  then ((False, preac1, 0, 0, messages),
                        (finish_beam b,
                         if \<not> is_tracer b \<and> see_cell E w2 (m_pos (menv E w2 mon))
                         then say E (''The '' @ name_b b @ '' arcs harmlessly into the water.'')
                                MSGCH_PLAIN w2
                         else w2))
                  else
                    (let preac = (if m_submerged (menv E w2 mon) then (preac1 * 2) sdiv 3 else preac1);
                         (a1, y1) = maybe_random2 E (1 + m_ac (menv E w2 mon)) (\<not> is_tracer b) (io w2);
                         (postac1, y3) =
                           (if flavour b = BEAM_FRAG then
                              (let (a2, y2) = maybe_random2 E (1 + m_ac (menv E w2 mon)) (\<not> is_tracer b) y1;
                                   (a3, y3) = maybe_random2 E (1 + m_ac (menv E w2 mon)) (\<not> is_tracer b) y2
                               in (preac - a1 - a2 - a3, y3))
                            else (preac - a1, y1));
                         postac = max postac1 0;
                         (final, b', w3) = mons_adjust_flavoured E mon b postac False (io_set w2 y3)
                     in ((True, preac, postac, final, messages), (b', w3))))))"

section \<open>A monster in the path\<close>

text \<open>\<^verbatim>\<open>bolt::handle_stop_attack_prompt\<close>.\<close>

definition handle_stop_attack_prompt ::
  "('r, 'x, 'y) env \<Rightarrow> nat \<Rightarrow> ('r, 'x, 'y) st \<Rightarrow> ('r, 'x, 'y) st" where
  "handle_stop_attack_prompt E mon s =
     (case s of (b, w) \<Rightarrow>
        if (thrower b = KILL_YOU_MISSILE \<or> thrower b = KILL_YOU) \<and> \<not> is_harmless E b w mon
           \<and> ((count_t (friend_info b) = 1 \<and> \<not> dont_stop_t (friend_info b))
               \<or> (count_t (foe_info b) = 1 \<and> \<not> dont_stop_t (foe_info b)))
        then
          (let (stop, y) = stop_attack_prompt E w mon (target b) in
           if stop then (finish_beam (b\<lparr>beam_cancelled := True\<rparr>), io_set w y)
           else if count_t (friend_info b) = 1
           then (b\<lparr>friend_info := (friend_info b)\<lparr>dont_stop_t := True\<rparr>\<rparr>, io_set w y)
           else if count_t (foe_info b) = 1
           then (b\<lparr>foe_info := (foe_info b)\<lparr>dont_stop_t := True\<rparr>\<rparr>, io_set w y)
           else (b, io_set w y))
        else (b, w))"

text \<open>\<^verbatim>\<open>bolt::tracer_enchantment_affect_monster\<close>.\<close>

definition tracer_enchantment_affect_monster ::
  "('r, 'x, 'y) env \<Rightarrow> nat \<Rightarrow> ('r, 'x, 'y) st \<Rightarrow> ('r, 'x, 'y) st" where
  "tracer_enchantment_affect_monster E mon s =
     (case s of (b, w) \<Rightarrow>
        (let mv = menv E w mon;
             b1 = (if \<not> mons_atts_aligned E (attitude b) (m_mons_attitude mv)
                   then b\<lparr>foe_info := tally (foe_info b) (mons_power E (m_type mv))\<rparr>
                   else b\<lparr>friend_info := tally (friend_info b) (mons_power E (m_type mv))\<rparr>);
             (b2, w2) = handle_stop_attack_prompt E mon (b1, w)
         in if \<not> beam_cancelled b2 then
              (let (aff, w3) = apply_hit_funcs E b2 (A_Monster mon) 0 (-1) w2
               in (add_range_used_on_hit E (A_Monster mon) b2, w3))
            else (b2, w2)))"

text \<open>\<^verbatim>\<open>bolt::tracer_nonenchantment_affect_monster\<close>.\<close>

definition tracer_nonenchantment_affect_monster ::
  "('r, 'x, 'y) env \<Rightarrow> nat \<Rightarrow> ('r, 'x, 'y) st \<Rightarrow> ('r, 'x, 'y) st" where
  "tracer_nonenchantment_affect_monster E mon s =
     (case determine_damage E mon s of
        ((ok, preac, post, final, messages), (b, w)) \<Rightarrow>
          if \<not> ok then (b, w)
          else
            (let mv = menv E w mon;
                 weight = (2 * final * mons_power E (m_type mv)) sdiv preac;
                 b1 = (if final > 0 then
                         (if \<not> mons_atts_aligned E (attitude b) (m_mons_attitude mv)
                          then b\<lparr>foe_info := (foe_info b)\<lparr>power_t := power_t (foe_info b) + weight,
                                                          count_t := count_t (foe_info b) + 1\<rparr>\<rparr>
                          else b\<lparr>friend_info := (friend_info b)\<lparr>power_t := power_t (friend_info b) + weight,
                                                                count_t := count_t (friend_info b) + 1\<rparr>\<rparr>)
                       else b);
                 (b2, w2) = handle_stop_attack_prompt E mon (b1, w)
             in if beam_cancelled b2 then (b2, w2)
                else
                  (let w3 = (if \<not> is_tracer b2 \<and> final > 0
                             then say_all E messages MSGCH_MONSTER_DAMAGE w2 else w2);
                       (aff, w4) = apply_hit_funcs E b2 (A_Monster mon) final (-1) w3
                   in (add_range_used_on_hit E (A_Monster mon) b2, w4))))"

text \<open>\<^verbatim>\<open>bolt::tracer_affect_monster\<close>.\<close>

definition tracer_affect_monster ::
  "('r, 'x, 'y) env \<Rightarrow> nat \<Rightarrow> ('r, 'x, 'y) st \<Rightarrow> ('r, 'x, 'y) st" where
  "tracer_affect_monster E mon s =
     (case s of (b, w) \<Rightarrow>
        if \<not> m_visible_to_you (menv E w mon)
           \<or> (YOU_KILL (hdr E) (thrower b) \<and> \<not> see_cell E w (m_pos (menv E w mon)))
        then (b, w)
        else if is_explosion b \<and> \<not> in_explosion_phase b then (finish_beam b, w)
        else if is_enchantment (hdr E) b then tracer_enchantment_affect_monster E mon (b, w)
        else tracer_nonenchantment_affect_monster E mon (b, w))"

text \<open>\<^verbatim>\<open>bolt::affect_monster\<close>. After the tracer exit the function wakes, enchants, rolls
  to hit, lets the monster block, and hurts or kills it; that part is
  \<open>affect_monster_live\<close>.\<close>

definition affect_monster :: "('r, 'x, 'y) env \<Rightarrow> nat \<Rightarrow> ('r, 'x, 'y) st \<Rightarrow> ('r, 'x, 'y) st" where
  "affect_monster E mon s =
     (case s of (b, w) \<Rightarrow>
        (let mv = menv E w mon in
         if \<not> m_alive mv
            \<or> flavour b = BEAM_DIGGING
            \<or> (m_type mv = MONS_BUSH \<and> \<not> is_beam b \<and> \<not> is_explosion b
                \<and> (flavour b = BEAM_MISSILE \<or> flavour b = BEAM_MMISSILE))
            \<or> (name_b b = ''great blast of fire'' \<and> m_type mv = MONS_FIRE_VORTEX)
         then (b, snd (apply_hit_funcs E b (A_Monster mon) 0 (-1) w))
         else if is_tracer b then tracer_affect_monster E mon (b, w)
         else affect_monster_live E mon (b, w)))"

text \<open>\<^verbatim>\<open>bolt::can_affect_wall_monster\<close>.\<close>

definition can_affect_wall_monster :: "('r, 'x, 'y) env \<Rightarrow> 'r bolt \<Rightarrow> ('x, 'y) world \<Rightarrow> nat \<Rightarrow> bool" where
  "can_affect_wall_monster E b w mon =
     (if is_enchantment (hdr E) b then True
      else
        (let superconductor = (grd w (m_pos (menv E w mon)) = DNGN_METAL_WALL
                               \<and> flavour b = BEAM_ELECTRICITY)
         in if m_wall_shielded (menv E w mon) \<and> \<not> superconductor then False
            else if \<not> is_explosion b \<and> \<not> is_big_cloud b then True
            else False))"


section \<open>One cell\<close>

text \<open>\<^verbatim>\<open>_chaos_beam_flavour\<close> draws from this weighted list.\<close>

definition chaos_flavours :: "(int \<times> beam_type) list" where
  "chaos_flavours =
     map (\<lambda>f. (10, f))
       [BEAM_FIRE, BEAM_COLD, BEAM_ELECTRICITY, BEAM_POISON, BEAM_NEG, BEAM_ACID,
        BEAM_HELLFIRE, BEAM_NAPALM, BEAM_SLOW, BEAM_HASTE, BEAM_MIGHT, BEAM_BERSERK,
        BEAM_HEALING, BEAM_PARALYSIS, BEAM_CONFUSION, BEAM_INVISIBILITY, BEAM_POLYMORPH,
        BEAM_BANISH, BEAM_DISINTEGRATION]"

text \<open>\<^verbatim>\<open>bolt::fake_flavour\<close>.\<close>

definition fake_flavour :: "('r, 'x, 'y) env \<Rightarrow> ('r, 'x, 'y) st \<Rightarrow> ('r, 'x, 'y) st" where
  "fake_flavour E s =
     (case s of (b, w) \<Rightarrow>
        if real_flavour b = BEAM_RANDOM
        then (let (f, y) = random_flavour E (io w) in (b\<lparr>flavour := f\<rparr>, io_set w y))
        else if real_flavour b = BEAM_CHAOS
        then (let (f, y) = random_choose_weighted E chaos_flavours (io w)
              in (b\<lparr>flavour := f\<rparr>, io_set w y))
        else (b, w))"

text \<open>\<^verbatim>\<open>bolt::affect_ground\<close>. After the two exits the function spawns fungus, exposes
  items and places clouds; that part is \<open>affect_ground_live\<close>.\<close>

definition affect_ground :: "('r, 'x, 'y) env \<Rightarrow> ('r, 'x, 'y) st \<Rightarrow> ('r, 'x, 'y) st" where
  "affect_ground E s =
     (case s of (b, w) \<Rightarrow>
        if is_explosion b \<and> \<not> in_explosion_phase b then (b, w)
        else if is_tracer b then (b, w)
        else affect_ground_live E (b, w))"

text \<open>The first two statements of \<^verbatim>\<open>bolt::affect_cell\<close>: a cloud on the cell lowers
  the accuracy, and a random or chaos bolt takes its flavour for this cell.\<close>

definition cell_entry :: "('r, 'x, 'y) env \<Rightarrow> ('r, 'x, 'y) st \<Rightarrow> ('r, 'x, 'y) st" where
  "cell_entry E s =
     (case s of (b0, w0) \<Rightarrow>
        fake_flavour E
          ((if cloud_at E w0 (bpos E b0) then b0\<lparr>hit := max (hit b0 - 2) 0\<rparr> else b0), w0))"

text \<open>
  \<^verbatim>\<open>bolt::affect_cell\<close>. Beside the new state the model returns the occupants that
  the function handed to \<^verbatim>\<open>affect_monster\<close> and \<^verbatim>\<open>affect_player\<close>, in the order of
  the calls.
\<close>

definition affect_cell ::
  "('r, 'x, 'y) env \<Rightarrow> bool \<Rightarrow> ('r, 'x, 'y) st \<Rightarrow> (actor list \<times> ('r, 'x, 'y) st) option" where
  "affect_cell E avoid_self s =
     (case cell_entry E s of (b, w) \<Rightarrow>
        (let old_pos = bpos E b;
             was_solid = feat_is_solid (ter E) (grd w (bpos E b));
             avoid_player = (avoid_self \<and> YOU_KILL (hdr E) (thrower b));
             avoid_monster = (avoid_self \<and> \<not> YOU_KILL (hdr E) (thrower b)
                              \<and> MON_KILL (hdr E) (thrower b));
             (tr1, s1) =
               (if was_solid then
                  (case monster_at E w (bpos E b) of
                     Some mon \<Rightarrow>
                       if can_affect_wall_monster E b w mon \<and> \<not> avoid_monster
                       then ([A_Monster mon], affect_monster E mon (b, w))
                       else if \<not> avoid_monster
                       then ([], (b, say E (''The '' @ raw_feature_description E (grd w (m_pos (menv E w mon)))
                                            @ '' protects '' @ m_name (menv E w mon) @ '' from harm.'')
                                       MSGCH_PLAIN w))
                       else ([], (b, w))
                   | None \<Rightarrow> ([], (b, w)))
                else ([], (b, w)))
         in case (if was_solid then hit_wall E s1 else Some (False, s1)) of
              None \<Rightarrow> None
            | Some (ended, (b2, w2)) \<Rightarrow>
                if ended then Some (tr1, (b2, w2))
                else
                  (let still_wall = (was_solid \<and> old_pos = bpos E b2);
                       hit_player = (found_player E b2 w2 \<and> \<not> avoid_player);
                       (tr2, (b3, w3)) =
                         (if hit_player then (tr1 @ [The_Player], affect_player E (b2, w2))
                          else (tr1, (b2, w2)));
                       (tr3, (b4, w4)) =
                         (if (\<not> hit_player \<or> is_beam b3 \<or> is_explosion b3)
                             \<and> \<not> still_wall \<and> \<not> avoid_monster then
                            (case monster_at E w3 (bpos E b3) of
                               Some m \<Rightarrow> (tr2 @ [A_Monster m], affect_monster E m (b3, w3))
                             | None \<Rightarrow> (tr2, (b3, w3)))
                          else (tr2, (b3, w3)))
                   in if \<not> feat_is_solid (ter E) (grd w4 (bpos E b4))
                      then Some (tr3, affect_ground E (b4, w4))
                      else Some (tr3, (b4, w4)))))"

section \<open>Explosions\<close>

text \<open>\<^verbatim>\<open>_potion_beam_flavour_to_colour\<close>; three of the colours are drawn by
  \<^verbatim>\<open>coinflip()\<close>.\<close>

definition potion_beam_flavour_to_colour ::
  "('r, 'x, 'y) env \<Rightarrow> beam_type \<Rightarrow> 'y \<Rightarrow> int \<times> 'y" where
  "potion_beam_flavour_to_colour E fl y =
     (let K = hdr E in
      if fl = BEAM_POTION_STINKING_CLOUD then (GREEN K, y)
      else if fl = BEAM_POTION_POISON
      then (let (c, y') = coinflip E y in (if c then GREEN K else LIGHTGREEN K, y'))
      else if fl = BEAM_POTION_MIASMA \<or> fl = BEAM_POTION_BLACK_SMOKE then (DARKGREY K, y)
      else if fl = BEAM_POTION_STEAM \<or> fl = BEAM_POTION_GREY_SMOKE then (LIGHTGREY K, y)
      else if fl = BEAM_POTION_FIRE
      then (let (c, y') = coinflip E y in (if c then RED K else LIGHTRED K, y'))
      else if fl = BEAM_POTION_COLD
      then (let (c, y') = coinflip E y in (if c then BLUE K else LIGHTBLUE K, y'))
      else if fl = BEAM_POTION_BLUE_SMOKE then (LIGHTBLUE K, y)
      else if fl = BEAM_POTION_PURPLE_SMOKE then (MAGENTA K, y)
      else (-1, y))"

text \<open>\<^verbatim>\<open>bolt::refine_for_explosion\<close>. \<open>see\<close> and \<open>hear\<close> are \<^verbatim>\<open>seeMsg\<close> and
  \<^verbatim>\<open>hearMsg\<close>, \<open>None\<close> for \<^verbatim>\<open>NULL\<close>.\<close>

definition refine_for_explosion :: "('r, 'x, 'y) env \<Rightarrow> ('r, 'x, 'y) st \<Rightarrow> ('r, 'x, 'y) st" where
  "refine_for_explosion E s =
     (case s of (b0, w) \<Rightarrow>
        (let K = hdr E;
             b1 = (if ex_size b0 = 0 then b0\<lparr>ex_size := 1\<rparr> else b0)\<lparr>msg_generated := True\<rparr>;
             (b2, see2, hear2) =
               (if has_item b1
                then (b1\<lparr>type_b := DCHAR_FIRED_BURST K\<rparr>,
                      Some (''The '' @ item_name E w b1 @ '' explodes!''), ''You hear an explosion.'')
                else (b1, None, []));
             (b3, see3, hear3) =
               (if str_find ''hellfire'' (name_b b2)
                then (b2\<lparr>type_b := DCHAR_FIRED_BURST K, flavour := BEAM_HELLFIRE\<rparr>,
                      Some ''The hellfire explodes!'', ''You hear a strangely unpleasant explosion.'')
                else (b2, see2, hear2));
             (b4, see4, hear4) =
               (if name_b b3 = ''fireball''
                then (b3\<lparr>type_b := DCHAR_FIRED_BURST K, flavour := BEAM_FIRE, ex_size := 1\<rparr>,
                      Some ''The fireball explodes!'', ''You hear an explosion.'')
                else (b3, see3, hear3));
             (b5, see5, hear5) =
               (if name_b b4 = ''orb of electricity''
                then (b4\<lparr>type_b := DCHAR_FIRED_BURST K, flavour := BEAM_ELECTRICITY,
                         colour := LIGHTCYAN K, damage := (damage b4)\<lparr>num := 1\<rparr>, ex_size := 2\<rparr>,
                      Some ''The orb of electricity explodes!'', ''You hear a clap of thunder!'')
                else (b4, see4, hear4));
             (b6, see6, hear6) =
               (if name_b b5 = ''orb of energy''
                then (b5, Some ''The orb of energy explodes.'', ''You hear an explosion.'')
                else (b5, see5, hear5));
             (b7, see7, hear7) =
               (if name_b b6 = ''metal orb''
                then (b6\<lparr>name_b := ''blast of shrapnel'', type_b := DCHAR_FIRED_ZAP K,
                         flavour := BEAM_FRAG\<rparr>,
                      Some ''The orb explodes into a blast of deadly shrapnel!'', ''You hear an explosion!'')
                else (b6, see6, hear6));
             (b8, see8, hear8, w8) =
               (if name_b b7 = ''great blast of cold'' then
                  (let (sz, w') =
                         (if is_tracer b7 then (3, w)
                          else (let (n, y) = random2 E (ench_power b7) (io w)
                                in (2 + (if n > 75 then 1 else 0), io_set w y)))
                   in (b7\<lparr>name_b := ''ice storm'', type_b := DCHAR_FIRED_ZAP K, colour := WHITE K,
                          ex_size := sz\<rparr>,
                       Some ''The blast explodes into a great storm of ice!'', ''You hear a raging storm!'',
                       w'))
                else (b7, see7, hear7, w));
             (b9, see9, hear9) =
               (if name_b b8 = ''stinking cloud''
                then (b8, Some ''The beam expands into a vile cloud!'', ''You hear a gentle 'poof'.'')
                else (b8, see8, hear8));
             (b10, see10, hear10) =
               (if name_b b9 = ''foul vapour''
                then ((if \<not> is_tracer b9 then b9\<lparr>name_b := ''stinking cloud''\<rparr> else b9),
                      Some ''The ball expands into a vile cloud!'', ''You hear a gentle 'poof'.'')
                else (b9, see9, hear9));
             (b11, see11, hear11, w11) =
               (if name_b b10 = ''potion'' then
                  (let (b', w') =
                         (if \<not> is_tracer b10
                          then (let bb = b10\<lparr>name_b := ''cloud''\<rparr>;
                                    (newcolour, y) = potion_beam_flavour_to_colour E (flavour bb) (io w8)
                                in ((if newcolour \<ge> 0 then bb\<lparr>colour := newcolour\<rparr> else bb),
                                    io_set w8 y))
                          else (b10, w8))
                   in (b', Some ''The potion explodes!'', ''You hear an explosion!'', w'))
                else (b10, see10, hear10, w8));
             (seeMsg, hearMsg) =
               (case see11 of
                  None \<Rightarrow> (''The beam explodes into a cloud of software bugs!'',
                            ''You hear the sound of one hand clapping!'')
                | Some m \<Rightarrow> (m, hear11))
         in if \<not> is_tracer b11 \<and> seeMsg \<noteq> [] \<and> hearMsg \<noteq> [] then
              (let hrd = player_can_hear E w11 (target b11); b12 = b11\<lparr>heard := hrd\<rparr> in
               if see_cell E w11 (target b12) \<or> target b12 = you_pos E w11
               then (b12, say E seeMsg MSGCH_PLAIN w11)
               else if \<not> hrd then (b12\<lparr>msg_generated := False\<rparr>, w11)
               else (b12, say E hearMsg MSGCH_SOUND w11))
            else (b11, w11)))"

text \<open>\<^verbatim>\<open>_radial_sweep\<close>: the rings of offsets around the centre, innermost first.\<close>

definition sweep_ring :: "int \<Rightarrow> coord_def list" where
  "sweep_ring rad =
     concat (map (\<lambda>d. (if d \<noteq> rad \<and> d \<noteq> - rad then [coord (- rad) d, coord rad d] else [])
                       @ [coord d (- rad), coord d rad])
                 [- rad..rad])"

definition radial_sweep :: "int \<Rightarrow> coord_def list list" where
  "radial_sweep r = [coord 0 0] # map sweep_ring [1..r]"

text \<open>\<^verbatim>\<open>bolt::explosion_affect_cell\<close>.\<close>

definition explosion_affect_cell ::
  "('r, 'x, 'y) env \<Rightarrow> coord_def \<Rightarrow> ('r, 'x, 'y) st \<Rightarrow> ('r, 'x, 'y) st option" where
  "explosion_affect_cell E p s =
     (case s of (b, w) \<Rightarrow>
        (let orig_pos = target b;
             (b1, w1) = fake_flavour E (b, w)
         in case affect_cell E False (b1\<lparr>target := p\<rparr>, w1) of
              None \<Rightarrow> None
            | Some (tr, (b2, w2)) \<Rightarrow> Some (b2\<lparr>flavour := real_flavour b2, target := orig_pos\<rparr>, w2)))"

text \<open>The environment of the flood fill, taken from the collaborators.\<close>

definition fill_env_of :: "('r, 'x, 'y) env \<Rightarrow> ('r, 'x, 'y) fill_env" where
  "fill_env_of E =
     \<lparr>fe_terrain = ter E, fe_ray_pos = ray_pos E, fe_is_sanctuary = is_sanctuary E,
      fe_Compass = Compass E, fe_aoe = aoe_fn E\<rparr>"

text \<open>The draw pass of \<^verbatim>\<open>bolt::explode\<close>, ring by ring.\<close>

definition explosion_draw_pass ::
  "('r, 'x, 'y) env \<Rightarrow> bool \<Rightarrow> explosion_map \<Rightarrow> 'r bolt \<Rightarrow> coord_def list list
   \<Rightarrow> ('x, 'y) world \<Rightarrow> ('x, 'y) world" where
  "explosion_draw_pass E hole exp_map b sweep w =
     fold (\<lambda>ring w1.
             explosion_delay E
               (fold (\<lambda>delta w2.
                        if origin delta \<and> hole then w2
                        else if exp_map (coord_add delta centre) < INT_MAX
                        then explosion_draw_cell E b (coord_add delta (bpos E b)) w2
                        else w2)
                     ring w1))
          sweep w"

text \<open>The affect pass, cell by cell; the number counts the cells that the player sees.\<close>

fun explosion_affect_pass ::
  "('r, 'x, 'y) env \<Rightarrow> bool \<Rightarrow> explosion_map \<Rightarrow> coord_def list \<Rightarrow> int \<times> ('r, 'x, 'y) st
   \<Rightarrow> (int \<times> ('r, 'x, 'y) st) option" where
  "explosion_affect_pass E hole exp_map [] acc = Some acc"
| "explosion_affect_pass E hole exp_map (delta # ds) acc =
     (case acc of (cells_seen, (b, w)) \<Rightarrow>
        if origin delta \<and> hole then explosion_affect_pass E hole exp_map ds acc
        else if exp_map (coord_add delta centre) < INT_MAX then
          (let p = coord_add delta (bpos E b);
               n = (if see_cell E w p then cells_seen + 1 else cells_seen)
           in case explosion_affect_cell E p (b, w) of
                None \<Rightarrow> None
              | Some s' \<Rightarrow> explosion_affect_pass E hole exp_map ds (n, s'))
        else explosion_affect_pass E hole exp_map ds acc)"

text \<open>\<^verbatim>\<open>bolt::explode\<close>; \<^verbatim>\<open>MAX_EXPLOSION_RADIUS\<close> is 9.\<close>

definition explode ::
  "('r, 'x, 'y) env \<Rightarrow> bool \<Rightarrow> bool \<Rightarrow> ('r, 'x, 'y) st \<Rightarrow> (bool \<times> ('r, 'x, 'y) st) option" where
  "explode E show_more hole_in_the_middle s =
     (case s of (b0, w0) \<Rightarrow>
        (let b1 = (if real_flavour b0 = BEAM_CHAOS \<or> real_flavour b0 = BEAM_RANDOM
                   then b0\<lparr>flavour := real_flavour b0\<rparr> else b0\<lparr>real_flavour := flavour b0\<rparr>);
             r = min (ex_size b1) 9;
             b2 = b1\<lparr>in_explosion_phase := True\<rparr>
         in if is_sanctuary E w0 (bpos E b2) then
              (if \<not> is_tracer b2 \<and> see_cell E w0 (bpos E b2) \<and> name_b b2 \<noteq> []
               then Some (True, (b2, say E (''By Zin's power, the '' @ name_b b2 @ '' is contained.'')
                                      MSGCH_GOD w0))
               else Some (False, (b2, w0)))
            else
              (let (b3, w3) =
                     (if \<not> is_tracer b2 then
                        (let bl = b2\<lparr>loudness := 10 + 5 * r\<rparr>;
                             (heard_expl, w1) = noisy E (loudness bl) (bpos E bl) (beam_source bl) w0;
                             bh = bl\<lparr>heard := (heard bl \<or> heard_expl)\<rparr>
                         in (bh, if heard_expl \<and> noise_msg bh \<noteq> [] \<and> \<not> see_cell E w1 (bpos E bh)
                                 then say E (noise_msg bh) MSGCH_SOUND w1 else w1))
                      else (b2, w0));
                   exp_map = determine_affected_cells (fill_env_of E) w3 b3 exp_map_init (coord 0 0) 0 r
                               True True;
                   sweep = radial_sweep r;
                   w4 = (if \<not> is_tracer b3
                         then explosion_draw_pass E hole_in_the_middle exp_map b3 sweep w3 else w3)
               in case explosion_affect_pass E hole_in_the_middle exp_map (concat sweep) (0, (b3, w4)) of
                    None \<Rightarrow> None
                  | Some (cells_seen, (b5, w5)) \<Rightarrow>
                      Some (cells_seen > 0,
                            (b5, if \<not> is_tracer b5 \<and> cells_seen > 0 \<and> show_more
                                 then explosion_delay E w5 else w5)))))"


section \<open>The end of the path\<close>

text \<open>A firing is the bolt, the bolt behind its pointer \<^verbatim>\<open>special_explosion\<close> (\<open>None\<close>
  for \<^verbatim>\<open>NULL\<close>) and the world.\<close>

type_synonym ('r, 'x, 'y) firing = "'r bolt \<times> 'r bolt option \<times> ('x, 'y) world"

text \<open>\<^verbatim>\<open>bolt::drop_object\<close>. After the exit the function destroys or places the item; that
  part is \<open>drop_object_live\<close>.\<close>

definition drop_object :: "('r, 'x, 'y) env \<Rightarrow> ('r, 'x, 'y) st \<Rightarrow> ('r, 'x, 'y) st" where
  "drop_object E s =
     (case s of (b, w) \<Rightarrow>
        if is_tracer b \<or> \<not> was_missile b then (b, w) else drop_object_live E (b, w))"

text \<open>\<^verbatim>\<open>bolt::affect_endpoint\<close>; \<^verbatim>\<open>explode()\<close> has the default arguments
  \<^verbatim>\<open>show_more = true\<close> and \<^verbatim>\<open>hole_in_the_middle = false\<close>.\<close>

definition affect_endpoint :: "('r, 'x, 'y) env \<Rightarrow> ('r, 'x, 'y) firing \<Rightarrow> ('r, 'x, 'y) firing option" where
  "affect_endpoint E f =
     (case f of (b, sp, w) \<Rightarrow>
        (case (case sp of
                 None \<Rightarrow> Some (None, w)
               | Some sb \<Rightarrow>
                   (let (sb1, wa) = refine_for_explosion E (sb, w)
                    in case explode E True False (sb1\<lparr>target := bpos E b\<rparr>, wa) of
                         None \<Rightarrow> None
                       | Some (r, (sb2, wb)) \<Rightarrow> Some (Some sb2, wb))) of
           None \<Rightarrow> None
         | Some (sp1, w1) \<Rightarrow>
             (let (b2, w2) = (if drop_item b \<and> has_item b then drop_object E (b, w1) else (b, w1)) in
              if is_explosion b2 then
                (let (b3, w3) = refine_for_explosion E (b2, w2)
                 in case explode E True False (b3\<lparr>target := bpos E b3\<rparr>, w3) of
                      None \<Rightarrow> None
                    | Some (r, (b4, w4)) \<Rightarrow> Some (b4, sp1, w4))
              else if is_tracer b2 then Some (b2, sp1, w2)
              else
                (case (if name_b b2 = ''orb of electricity'' \<or> name_b b2 = ''metal orb''
                          \<or> name_b b2 = ''great blast of cold'' then
                         (let (b3, w3) = refine_for_explosion E (b2\<lparr>target := bpos E b2\<rparr>, w2)
                          in case explode E True False (b3, w3) of
                               None \<Rightarrow> None
                             | Some (r, s') \<Rightarrow> Some s')
                       else Some (b2, w2)) of
                   None \<Rightarrow> None
                 | Some (b5, w5) \<Rightarrow>
                     (let w6 = (if name_b b5 = ''blast of poison''
                                then (let (n, y) = random2 E 5 (io w5)
                                      in big_cloud E CLOUD_POISON (whose_kill E b5 w5) (killer b5)
                                           (bpos E b5) 0 (7 + n) (io_set w5 y))
                                else w5);
                          w7 = (if name_b b5 = ''foul vapour''
                                then big_cloud E CLOUD_MIASMA (whose_kill E b5 w6) (killer b5)
                                       (bpos E b5) 0 9 w6
                                else w6);
                          w8 = (if name_b b5 = ''freezing blast''
                                then (let (n, y) = random_range E 10 15 (io w7)
                                      in big_cloud E CLOUD_COLD (whose_kill E b5 w7) (killer b5)
                                           (bpos E b5) n 9 (io_set w7 y))
                                else w7)
                      in Some (b5, sp1, w8))))))"

section \<open>Firing\<close>

text \<open>
  \<^verbatim>\<open>bolt::initialise_fire\<close>, as the release build compiles it: the assertions and the
  blocks under \<^verbatim>\<open>DEBUG\<close> are empty there. The scaling of the drawing delay is left
  to the renderer. The statements of the function are given one by one, in the order
  of the source, and \<open>initialise_fire\<close> runs them in that order.
\<close>

text \<open>\<^verbatim>\<open>range_used = 0; in_explosion_phase = false; use_target_as_pos = false;\<close>\<close>

definition fix_tracer_fields :: "'r bolt \<Rightarrow> 'r bolt" where
  "fix_tracer_fields b = b\<lparr>range_used := 0, in_explosion_phase := False, use_target_as_pos := False\<rparr>"

text \<open>\<^verbatim>\<open>if (chose_ray) { if (source == coord_def()) source = ray.pos(); }\<close>\<close>

definition fix_source :: "('r, 'x, 'y) env \<Rightarrow> 'r bolt \<Rightarrow> 'r bolt" where
  "fix_source E b =
     (if chose_ray b \<and> source_b b = coord 0 0 then b\<lparr>source_b := ray_pos E (ray b)\<rparr> else b)"

text \<open>\<^verbatim>\<open>if (target == source) { ... }\<close>\<close>

definition fix_aimed_at_feet :: "'r bolt \<Rightarrow> 'r bolt" where
  "fix_aimed_at_feet b =
     (if target b = source_b b
      then b\<lparr>range_b := 0, aimed_at_feet := True, auto_hit := True,
             aimed_at_spot := True, use_target_as_pos := True\<rparr>
      else b)"

text \<open>\<^verbatim>\<open>if (range == -1) range = LOS_RADIUS;\<close>\<close>

definition fix_range :: "('r, 'x, 'y) env \<Rightarrow> 'r bolt \<Rightarrow> 'r bolt" where
  "fix_range E b = (if range_b b = -1 then b\<lparr>range_b := LOS_RADIUS (hdr E)\<rparr> else b)"

text \<open>\<^verbatim>\<open>real_flavour = flavour; message_cache.clear();\<close>\<close>

definition fix_flavour :: "'r bolt \<Rightarrow> 'r bolt" where
  "fix_flavour b = b\<lparr>real_flavour := flavour b, message_cache := []\<rparr>"

text \<open>The bolt that is seen leaving its source, with the message for one that no visible
  monster fired.\<close>

definition see_at_source :: "('r, 'x, 'y) env \<Rightarrow> ('r, 'x, 'y) st \<Rightarrow> ('r, 'x, 'y) st" where
  "see_at_source E s =
     (case s of (b, w) \<Rightarrow>
        if \<not> seen b \<and> see_cell E w (source_b b) \<and> range_b b > 0 \<and> \<not> invisible (hdr E) b
        then (b\<lparr>seen := True\<rparr>,
              if flavour b \<noteq> BEAM_VISUAL \<and> \<not> is_tracer b
                 \<and> \<not> YOU_KILL (hdr E) (thrower b) \<and> \<not> is_god_acting E w
                 \<and> (case monster_at E w (source_b b) of
                       None \<Rightarrow> True | Some mon \<Rightarrow> \<not> m_observable (menv E w mon))
              then say E (article_a E (name_b b) @ '' appears from out of thin air!'')
                     MSGCH_PLAIN w
              else w)
        else (b, w))"

text \<open>\<^verbatim>\<open>if (you.see_cell(source) && target == source && !invisible()) seen = true;\<close>\<close>

definition see_self_targeted :: "('r, 'x, 'y) env \<Rightarrow> ('r, 'x, 'y) st \<Rightarrow> ('r, 'x, 'y) st" where
  "see_self_targeted E s =
     (case s of (b, w) \<Rightarrow>
        if see_cell E w (source_b b) \<and> target b = source_b b \<and> \<not> invisible (hdr E) b
        then (b\<lparr>seen := True\<rparr>, w) else (b, w))"

definition initialise_fire :: "('r, 'x, 'y) env \<Rightarrow> ('r, 'x, 'y) firing \<Rightarrow> ('r, 'x, 'y) firing" where
  "initialise_fire E f =
     (case f of (b, sp, w) \<Rightarrow>
        (let sp1 = map_option (\<lambda>sb. sb\<lparr>in_explosion_phase := False, use_target_as_pos := False\<rparr>) sp;
             b5 = fix_flavour (fix_range E (fix_aimed_at_feet (fix_source E (fix_tracer_fields b))));
             (b7, w7) = see_self_targeted E (see_at_source E (b5, w))
         in (b7, sp1, w7)))"

text \<open>\<^verbatim>\<open>bolt::apply_beam_conducts\<close>.\<close>

definition apply_beam_conducts :: "('r, 'x, 'y) env \<Rightarrow> ('r, 'x, 'y) st \<Rightarrow> ('r, 'x, 'y) st" where
  "apply_beam_conducts E s =
     (case s of (b, w) \<Rightarrow>
        if \<not> is_tracer b \<and> YOU_KILL (hdr E) (thrower b) \<and> flavour b = BEAM_HELLFIRE
        then (let (n, y) = random2 E 3 (io w)
              in (b, did_god_conduct E DID_UNHOLY (2 + n) (effect_known b) (io_set w y)))
        else (b, w))"

text \<open>\<^verbatim>\<open>bolt::choose_ray\<close>.\<close>

definition choose_ray :: "('r, 'x, 'y) env \<Rightarrow> ('r, 'x, 'y) st \<Rightarrow> ('r, 'x, 'y) st" where
  "choose_ray E s =
     (case s of (b, w) \<Rightarrow>
        if \<not> chose_ray b \<or> reflections b > 0 then
          (let (found, r1) = find_ray E w (source_b b) (target b) (ray b)
           in (b\<lparr>ray := (if found then r1 else fallback_ray E (source_b b) (target b) r1)\<rparr>, w))
        else (b, w))"

text \<open>\<^verbatim>\<open>bolt::draw\<close>: nothing is drawn for a tracer, an enchantment or an unseen cell.\<close>

definition draw :: "('r, 'x, 'y) env \<Rightarrow> coord_def \<Rightarrow> ('r, 'x, 'y) st \<Rightarrow> ('r, 'x, 'y) st" where
  "draw E p s =
     (case s of (b, w) \<Rightarrow>
        if is_tracer b \<or> is_enchantment (hdr E) b \<or> \<not> see_cell E w p then (b, w)
        else (b, draw_cell E b p w))"

text \<open>
  One turn of the \<^verbatim>\<open>while (in_bounds(pos()))\<close> loop of \<^verbatim>\<open>bolt::do_fire\<close>, after the
  loop test, in two halves. The first half records the cell in the path, resolves the
  cell and charges the range.
\<close>

definition fire_cell ::
  "('r, 'x, 'y) env \<Rightarrow> bool \<Rightarrow> ('r, 'x, 'y) st \<Rightarrow> ('r, 'x, 'y) st option" where
  "fire_cell E avoid_self s =
     (case s of (b0, w0) \<Rightarrow>
        (let b1 = b0\<lparr>path_taken := path_taken b0 @ [bpos E b0]\<rparr> in
         case (if \<not> affects_nothing b1 then map_option snd (affect_cell E avoid_self (b1, w0))
               else Some (b1, w0)) of
           None \<Rightarrow> None
         | Some (b2, w2) \<Rightarrow>
             Some ((if \<not> avoid_self then b2\<lparr>range_used := range_used b2 + 1\<rparr> else b2), w2)))"

text \<open>The second half is the tests that end the loop and the move to the next cell: the
  outcome says whether the loop goes on, was left by \<^verbatim>\<open>break\<close>, or the function
  returned.\<close>

datatype loop_outcome = Continue | Break | Return

definition fire_checks ::
  "('r, 'x, 'y) env \<Rightarrow> ('r, 'x, 'y) st \<Rightarrow> loop_outcome \<times> ('r, 'x, 'y) st" where
  "fire_checks E s =
     (case s of (b3, w2) \<Rightarrow>
        if range_used b3 \<ge> range_b b3 then (Break, (b3, w2))
        else if beam_cancelled b3 then (Return, (b3, w2))
        else
          (let at_target = (bpos E b3 = target b3);
               b4 = (if at_target then b3\<lparr>passed_target := True\<rparr> else b3)
           in if at_target \<and> stop_at_target b4 then (Break, (b4, w2))
              else
                (let was_seen = seen b4;
                     b5 = (if \<not> was_seen \<and> range_b b4 > 0 \<and> \<not> invisible (hdr E) b4
                              \<and> see_cell E w2 (bpos E b4)
                           then b4\<lparr>seen := True\<rparr> else b4);
                     w5 = (if flavour b5 \<noteq> BEAM_VISUAL \<and> \<not> was_seen \<and> seen b5 \<and> \<not> is_tracer b5
                           then say E (article_a E (name_b b5)
                                       @ '' appears from out of your range of vision.'')
                                  MSGCH_PLAIN w2
                           else w2);
                     b6 = (if real_flavour b5 = BEAM_CHAOS then b5\<lparr>flavour := real_flavour b5\<rparr>
                           else b5);
                     (b7, w7) = draw E (bpos E b6) (b6, w5)
                 in (Continue, (b7\<lparr>ray := ray_advance E (ray b7)\<rparr>, w7)))))"

definition do_fire_step ::
  "('r, 'x, 'y) env \<Rightarrow> bool \<Rightarrow> ('r, 'x, 'y) st \<Rightarrow> (loop_outcome \<times> ('r, 'x, 'y) st) option" where
  "do_fire_step E avoid_self s = map_option (fire_checks E) (fire_cell E avoid_self s)"

text \<open>The loop itself; \<open>None\<close> when it does not end.\<close>

partial_function (option) do_fire_loop ::
  "('r, 'x, 'y) env \<Rightarrow> bool \<Rightarrow> ('r, 'x, 'y) st \<Rightarrow> (loop_outcome \<times> ('r, 'x, 'y) st) option" where
  "do_fire_loop E avoid_self s =
     (if \<not> in_bounds (ter E) (bpos E (fst s)) then Some (Break, s)
      else (case do_fire_step E avoid_self s of
              None \<Rightarrow> None
            | Some (Continue, s') \<Rightarrow> do_fire_loop E False s'
            | Some (out, s') \<Rightarrow> Some (out, s')))"

declare do_fire_loop.simps [code]

text \<open>The bounded walk back onto the map after the loop.\<close>

fun regress_tries :: "('r, 'x, 'y) env \<Rightarrow> nat \<Rightarrow> 'r \<Rightarrow> 'r" where
  "regress_tries E 0 r = r"
| "regress_tries E (Suc n) r =
     (if \<not> in_bounds (ter E) (ray_pos E r) then regress_tries E n (ray_regress E r) else r)"

text \<open>The end of \<^verbatim>\<open>bolt::do_fire\<close>, for a firing that is neither a tracer nor without
  effect.\<close>

definition do_fire_reactions :: "('r, 'x, 'y) env \<Rightarrow> ('r, 'x, 'y) st \<Rightarrow> ('r, 'x, 'y) st" where
  "do_fire_reactions E s =
     (case s of (b, w) \<Rightarrow>
        (let w1 = (if \<not> msg_generated b \<and> \<not> obvious_effect b \<and> is_enchantment (hdr E) b
                      \<and> real_flavour b \<noteq> BEAM_CHAOS \<and> YOU_KILL (hdr E) (thrower b)
                   then canned_msg_nothing_happens E w else w)
         in if \<not> invalid_monster_index (hdr E) (beam_source b) then
              (let w2 = (if hurt_t (foe_info b) = 0 \<and> hurt_t (friend_info b) > 0
                         then xom_is_stimulated E 128 w1
                         else if helped_t (foe_info b) > 0 \<and> helped_t (friend_info b) = 0
                         then xom_is_stimulated E 128 w1
                         else w1);
                   w3 = (if hurt_t (foe_info b) > 0
                            \<and> \<not> m_wont_attack (menv E w2 (nat (beam_source b)))
                            \<and> \<not> arena E w2 \<and> pet_target_unset E w2 \<and> sanctuary_time E w2 \<le> 0
                         then set_pet_target E (beam_source b) w2 else w2)
               in (b, w3))
            else (b, w1)))"

text \<open>The value \<^verbatim>\<open>bolt::do_fire\<close> gives \<^verbatim>\<open>avoid_self\<close> before the loop; the loop
  clears it at the end of the first turn.\<close>

definition initial_avoid_self :: "'r bolt \<Rightarrow> bool" where
  "initial_avoid_self b = (\<not> aimed_at_feet b \<and> (\<not> is_explosion b \<or> \<not> in_explosion_phase b))"

text \<open>The part of \<^verbatim>\<open>bolt::do_fire\<close> after the loop, given what the loop left: nothing
  when the loop did not end, the state as it is when the loop was left by \<^verbatim>\<open>return\<close>,
  and otherwise the walk back onto the map, the endpoint and the reactions.\<close>

definition do_fire_end ::
  "('r, 'x, 'y) env \<Rightarrow> 'r bolt option \<Rightarrow> (loop_outcome \<times> ('r, 'x, 'y) st) option
   \<Rightarrow> ('r, 'x, 'y) firing option" where
  "do_fire_end E sp r =
     (case r of
        None \<Rightarrow> None
      | Some (Return, (b4, w4)) \<Rightarrow> Some (b4, sp, w4)
      | Some (out, (b4, w4)) \<Rightarrow>
          (let b5 = (if \<not> in_bounds (ter E) (bpos E b4)
                     then b4\<lparr>ray := regress_tries E (nat (max (GXM (hdr E)) (GYM (hdr E)))) (ray b4)\<rparr>
                     else b4)
           in case (if \<not> affects_nothing b5 then affect_endpoint E (b5, sp, w4)
                    else Some (b5, sp, w4)) of
                None \<Rightarrow> None
              | Some (b6, sp6, w6) \<Rightarrow>
                  if is_tracer b6 \<or> affects_nothing b6 then Some (b6, sp6, w6)
                  else (case do_fire_reactions E (b6, w6) of
                          (b7, w7) \<Rightarrow> Some (b7, sp6, w7))))"

text \<open>\<^verbatim>\<open>bolt::do_fire\<close>.\<close>

definition do_fire :: "('r, 'x, 'y) env \<Rightarrow> ('r, 'x, 'y) firing \<Rightarrow> ('r, 'x, 'y) firing option" where
  "do_fire E f =
     (case initialise_fire E f of (b0, sp, w0) \<Rightarrow>
        if range_b b0 \<le> range_used b0 \<and> range_b b0 > 0 then Some (b0, sp, w0)
        else
          (let (b1, w1) = apply_beam_conducts E (b0, w0);
               avoid_self = initial_avoid_self b1;
               b2 = b1\<lparr>msg_generated := False\<rparr>;
               (b3, w3) = (if \<not> aimed_at_feet b2 then choose_ray E (b2, w1) else (b2, w1))
           in do_fire_end E sp (do_fire_loop E avoid_self (b3, w3))))"

text \<open>\<^verbatim>\<open>_undo_tracer\<close>: the members listed are copied back from the saved bolt.\<close>

definition undo_tracer :: "'r bolt \<Rightarrow> 'r bolt \<Rightarrow> 'r bolt" where
  "undo_tracer orig copy =
     orig\<lparr>target := target copy, source_b := source_b copy, aimed_at_spot := aimed_at_spot copy,
          range_used := range_used copy, auto_hit := auto_hit copy, ray := ray copy,
          colour := colour copy, flavour := flavour copy, real_flavour := real_flavour copy\<rparr>"

text \<open>\<^verbatim>\<open>bolt::fire\<close>.\<close>

definition fire :: "('r, 'x, 'y) env \<Rightarrow> ('r, 'x, 'y) firing \<Rightarrow> ('r, 'x, 'y) firing option" where
  "fire E f =
     (case f of (b0, sp0, w) \<Rightarrow>
        (let b1 = b0\<lparr>path_taken := []\<rparr>;
             sp1 = map_option (\<lambda>sb. sb\<lparr>is_tracer := is_tracer b1\<rparr>) sp0
         in case (if is_tracer b1 then
                    (case do_fire E (b1, sp1, w) of
                       None \<Rightarrow> None
                     | Some (b2, sp2, w2) \<Rightarrow>
                         Some (undo_tracer b2 b1,
                               (case (sp2, sp1) of
                                  (Some sb2, Some sbcopy) \<Rightarrow> Some (undo_tracer sb2 sbcopy)
                                | _ \<Rightarrow> sp2),
                               w2))
                  else do_fire E (b1, sp1, w)) of
              None \<Rightarrow> None
            | Some (b3, sp3, w3) \<Rightarrow>
                (case sp3 of
                   None \<Rightarrow> Some (b3, sp3, w3)
                 | Some sb \<Rightarrow>
                     Some (b3\<lparr>seen := (seen b3 \<or> seen sb), heard := (heard b3 \<or> heard sb),
                              beam_cancelled := (beam_cancelled b3 \<or> beam_cancelled sb),
                              foe_info := tracer_plus (foe_info b3) (foe_info sb),
                              friend_info := tracer_plus (friend_info b3) (friend_info sb)\<rparr>,
                           sp3, w3))))"


section \<open>Vocabulary for the properties of the engine\<close>

text \<open>Two worlds hold the same game: they differ at most in the input and output.\<close>

definition same_game :: "('x, 'y) world \<Rightarrow> ('x, 'y) world \<Rightarrow> bool" where
  "same_game w w' = (grd w' = grd w \<and> pgrid_bloody w' = pgrid_bloody w \<and> dgn w' = dgn w)"

text \<open>The hit and damage callbacks leave the game alone.\<close>

definition quiet_callbacks :: "('r, 'x, 'y) env \<Rightarrow> bool" where
  "quiet_callbacks E =
     ((\<forall>f b v d c w. same_game w (snd (hit_fn E f b v d c w)))
      \<and> (\<forall>f b v d w. same_game w (snd (dmg_fn E f b v d w))))"

text \<open>
  A bolt advances to another when the range has not gone down and the range used has
  not gone below what it was, or below the old range where it was above it already
  (ending a beam sets the range used to the range).
\<close>

definition advances :: "'r bolt \<Rightarrow> 'r bolt \<Rightarrow> bool" where
  "advances b b' = (range_b b \<le> range_b b' \<and> min (range_used b) (range_b b) \<le> range_used b')"

text \<open>
  The collaborators spend range the way the file does: the stop value is not negative, a
  range callback does not make a cost negative, and the live bodies of the actor and
  ground functions advance the bolt (they add a cost or end the beam).
\<close>

definition spends_forward :: "('r, 'x, 'y) env \<Rightarrow> bool" where
  "spends_forward E =
     (0 \<le> BEAM_STOP (hdr E)
      \<and> (\<forall>f b v u. 0 \<le> u \<longrightarrow> 0 \<le> snd (range_fn E f b v u))
      \<and> (\<forall>b w. advances b (fst (affect_player_live E (b, w))))
      \<and> (\<forall>m b w. advances b (fst (affect_monster_live E m (b, w))))
      \<and> (\<forall>b w. advances b (fst (affect_ground_live E (b, w)))))"

text \<open>The live bodies of the actor functions do not turn a beam into a bolt or back.\<close>

definition keeps_kind :: "('r, 'x, 'y) env \<Rightarrow> bool" where
  "keeps_kind E =
     ((\<forall>b w. is_beam (fst (affect_player_live E (b, w))) = is_beam b
              \<and> is_explosion (fst (affect_player_live E (b, w))) = is_explosion b)
      \<and> (\<forall>m b w. is_beam (fst (affect_monster_live E m (b, w))) = is_beam b
                \<and> is_explosion (fst (affect_monster_live E m (b, w))) = is_explosion b))"


section \<open>A small concrete dungeon\<close>

text \<open>
  Concrete collaborators for the examples: header constants, terrain predicates for a
  map of 80 by 70 cells in which the walls, statues, idols and trees are solid, and
  random sources that always draw the smallest value.
\<close>

definition K_demo :: header_consts where
  "K_demo =
     \<lparr>BEAM_STOP = 1000, NON_MONSTER = 10000, AUTOMATIC_HIT = 1500, MHITNOT = 10001,
      LOS_RADIUS = 8, GXM = 80, GYM = 70, MHITYOU = 10002, ANON_FRIENDLY_MONSTER = 10003,
      MAX_MONSTERS = 350, BLUE = 1, GREEN = 2, RED = 4, MAGENTA = 5, LIGHTGREY = 7,
      DARKGREY = 8, LIGHTBLUE = 9, LIGHTGREEN = 10, LIGHTCYAN = 11, LIGHTRED = 12, WHITE = 15,
      DCHAR_FIRED_BURST = 35,
      DCHAR_FIRED_ZAP = 42,
      YOU_KILL = (\<lambda>k. k = KILL_YOU \<or> k = KILL_YOU_MISSILE \<or> k = KILL_YOU_CONF),
      MON_KILL = (\<lambda>k. k = KILL_MON \<or> k = KILL_MON_MISSILE),
      invalid_monster_index = (\<lambda>i. i < 0 \<or> i \<ge> 350),
      ench_flavour = (\<lambda>f. f \<in> set [BEAM_SLOW, BEAM_HASTE, BEAM_MIGHT, BEAM_HEALING,
         BEAM_PARALYSIS, BEAM_CONFUSION, BEAM_INVISIBILITY, BEAM_DIGGING, BEAM_TELEPORT,
         BEAM_POLYMORPH, BEAM_CHARM, BEAM_BANISH, BEAM_DEGENERATE, BEAM_ENSLAVE_UNDEAD,
         BEAM_ENSLAVE_SOUL, BEAM_PAIN, BEAM_DISPEL_UNDEAD, BEAM_DISINTEGRATION,
         BEAM_ENSLAVE_DEMON, BEAM_BLINK, BEAM_BLINK_CLOSE, BEAM_PETRIFY, BEAM_CORONA,
         BEAM_PORKALATOR, BEAM_HIBERNATION, BEAM_BERSERK, BEAM_SLEEP]),
      real_flavour_rng = (\<lambda>f. f \<notin> set [BEAM_TORMENT_DAMAGE, BEAM_STEAL_FOOD,
         BEAM_POTION_STINKING_CLOUD, BEAM_POTION_POISON, BEAM_POTION_MIASMA, BEAM_POTION_STEAM,
         BEAM_POTION_FIRE, BEAM_POTION_COLD, BEAM_POTION_BLACK_SMOKE, BEAM_POTION_GREY_SMOKE,
         BEAM_POTION_BLUE_SMOKE, BEAM_POTION_PURPLE_SMOKE, BEAM_POTION_RAIN,
         BEAM_POTION_MUTAGENIC, BEAM_POTION_RANDOM])\<rparr>"

definition T_demo :: terrain_ops where
  "T_demo =
     \<lparr>feat_is_solid = (\<lambda>f. f \<in> set [DNGN_ROCK_WALL, DNGN_CLEAR_ROCK_WALL, DNGN_WAX_WALL,
         DNGN_TREES, DNGN_METAL_WALL, DNGN_GREEN_CRYSTAL_WALL, DNGN_GRANITE_STATUE,
         DNGN_ORCISH_IDOL, DNGN_SECRET_DOOR]),
      feat_is_wall = (\<lambda>f. f \<in> set [DNGN_ROCK_WALL, DNGN_CLEAR_ROCK_WALL, DNGN_WAX_WALL,
         DNGN_METAL_WALL, DNGN_GREEN_CRYSTAL_WALL]),
      feat_is_closed_door = (\<lambda>f. False),
      feat_is_watery = (\<lambda>f. False),
      in_bounds = (\<lambda>p. 0 < cx p \<and> cx p < 79 \<and> 0 < cy p \<and> cy p < 69),
      map_bounds = (\<lambda>p. 0 \<le> cx p \<and> cx p < 80 \<and> 0 \<le> cy p \<and> cy p < 70)\<rparr>"

text \<open>A ray that is a position and a direction, advanced by adding the direction.\<close>

type_synonym line_ray = "coord_def \<times> coord_def"

definition b_demo :: "line_ray bolt" where
  "b_demo = bolt_ctor K_demo 0 42 (coord 0 0, coord 1 0)"

definition w_floor :: "(unit, unit) world" where
  "w_floor = \<lparr>grd = (\<lambda>p. DNGN_FLOOR), pgrid_bloody = (\<lambda>p. False), dgn = (), io = ()\<rparr>"

definition Compass_demo :: "coord_def list" where
  "Compass_demo = [coord 0 (-1), coord 1 (-1), coord 1 0, coord 1 1,
                   coord 0 1, coord (-1) 1, coord (-1) 0, coord (-1) (-1)]"

definition F_demo :: "(line_ray, unit, unit) fill_env" where
  "F_demo = \<lparr>fe_terrain = T_demo, fe_ray_pos = fst, fe_is_sanctuary = (\<lambda>w p. False),
             fe_Compass = Compass_demo, fe_aoe = (\<lambda>f b p. True)\<rparr>"

definition rand_low :: defer_rand where
  "rand_low i = \<lparr>dr_random2 = (\<lambda>n. 0), dr_random_range = (\<lambda>lo hi. lo),
                 dr_random2avg = (\<lambda>n k. n sdiv 2)\<rparr>"

text \<open>
  The game proper of the example: where the monsters stand, what their methods answer,
  their hit points, where the player stands, the player's hit points and inventory. The
  input and output is the message log. The live hooks of the example hurt the occupant by
  one hit point and charge the range of a hit; the prompts answer yes; the random draws
  give the smallest value.
\<close>

record demo_dgn =
  d_monster_at :: "coord_def \<Rightarrow> nat option"
  d_menv :: "nat \<Rightarrow> mon_view"
  d_mon_hp :: "nat \<Rightarrow> int"
  d_you_pos :: coord_def
  d_you_hp :: int
  d_inventory :: "string list"

definition mv_demo :: mon_view where
  "mv_demo =
     \<lparr>m_alive = True, m_type = MONS_OTHER 0, m_pos = coord 0 0, m_ac = 0,
      m_attitude = ATT_HOSTILE, m_mons_attitude = ATT_HOSTILE, m_submerged = False,
      m_visible_to_you = True, m_observable = True, m_res_fire = 0, m_res_steam = 0,
      m_res_cold = 0, m_res_elec = 0, m_res_acid = 0, m_res_poison = 0,
      m_res_negative_energy = 0, m_res_rotting = False, m_is_icy = False,
      m_has_lifeforce = True, m_wall_shielded = False, m_sense_invis = False,
      m_god_is_fedhas = False, m_wont_attack = False, m_name = ''the orc''\<rparr>"

type_synonym demo_world = "(demo_dgn, string list) world"

definition line_advance :: "line_ray \<Rightarrow> line_ray" where
  "line_advance r = (coord_add (fst r) (snd r), snd r)"

definition line_regress :: "line_ray \<Rightarrow> line_ray" where
  "line_regress r = (coord_sub (fst r) (snd r), snd r)"

definition line_bounce :: "(coord_def \<Rightarrow> bool) \<Rightarrow> line_ray \<Rightarrow> line_ray" where
  "line_bounce rg r = (fst r, coord (- cx (snd r)) (- cy (snd r)))"

definition E_demo :: "(line_ray, demo_dgn, string list) env" where
  "E_demo =
     \<lparr>hdr = K_demo, ter = T_demo,
      ray_pos = fst, ray_advance = line_advance, ray_regress = line_regress,
      ray_bounce = line_bounce,
      find_ray = (\<lambda>w s t r. (True, (s, coord (sgn (cx t - cx s)) (sgn (cy t - cy s))))),
      fallback_ray = (\<lambda>s t r. r),
      munge_ray = (\<lambda>w old new. (new, io w)),
      Compass = Compass_demo,
      you_pos = (\<lambda>w. d_you_pos (dgn w)),
      see_cell = (\<lambda>w p. True),
      can_smell = (\<lambda>w. True),
      you_invisible = (\<lambda>w. False),
      you_experience_level = (\<lambda>w. 1),
      you_religion_is_fedhas = (\<lambda>w. False),
      monster_at = (\<lambda>w p. d_monster_at (dgn w) p),
      menv = (\<lambda>w i. d_menv (dgn w) i),
      cloud_at = (\<lambda>w p. False),
      is_sanctuary = (\<lambda>w p. False),
      is_bloodcovered = (\<lambda>w p. pgrid_bloody w p),
      silenced = (\<lambda>w p. False),
      player_can_hear = (\<lambda>w p. True),
      veto_disintegrate = (\<lambda>w p. False),
      grid_distance = (\<lambda>p q. rdist (coord_sub p q)),
      mons_att_wont_attack = (\<lambda>a. a = ATT_FRIENDLY \<or> a = ATT_GOOD_NEUTRAL \<or> a = ATT_STRICT_NEUTRAL),
      mons_atts_aligned = (\<lambda>a c. a = c),
      mons_power = (\<lambda>t. 1),
      res_holy_energy = (\<lambda>w i a. 0),
      resist_adjust_damage = (\<lambda>w i f res raw ranged.
         if res = 0 then raw else if res > 0 then (if res \<ge> 3 then 0 else raw sdiv 2)
         else (raw * 3) sdiv 2),
      fedhas_protects = (\<lambda>w i. False),
      harmless_to_player = (\<lambda>b w. False),
      is_harmless = (\<lambda>b w i. False),
      feature_description = (\<lambda>w p a. ''a wall''),
      adjacent_cells = (\<lambda>p. map (coord_add p) (coord 0 0 # Compass_demo)),
      raw_feature_description = (\<lambda>f. ''wall''),
      item_name = (\<lambda>w b. ''stone''),
      article_a = (\<lambda>s. ''A '' @ s),
      is_god_acting = (\<lambda>w. False),
      arena = (\<lambda>w. False),
      pet_target_unset = (\<lambda>w. False),
      sanctuary_time = (\<lambda>w. 0),
      mpr = (\<lambda>m chan y. y @ [m]),
      yesno = (\<lambda>prompt y. (True, y @ [prompt])),
      stop_attack_prompt = (\<lambda>w i t. (False, io w)),
      random2 = (\<lambda>n y. (0, y)),
      random_range = (\<lambda>lo hi y. (lo, y)),
      random_flavour = (\<lambda>y. (BEAM_FIRE, y)),
      random_choose_weighted = (\<lambda>l y. (BEAM_FIRE, y)),
      maybe_random2 = (\<lambda>n r y. (if r then 0 else n sdiv 2, y)),
      roll_damage = (\<lambda>d y. (num d, y)),
      one_chance_in = (\<lambda>n y. (False, y)),
      coinflip = (\<lambda>y. (False, y)),
      set_terrain_changed = (\<lambda>p w. w),
      place_cloud = (\<lambda>c p n wk k sp w. w),
      big_cloud = (\<lambda>c wk k p n sp w. w),
      did_god_conduct = (\<lambda>c n k w. w),
      fire_wall_hit_event = (\<lambda>p src t w. w),
      noisy = (\<lambda>l p src w. (True, w)),
      simple_monster_message = (\<lambda>i m w. w\<lparr>io := io w @ [m_name (d_menv (dgn w) i) @ m]\<rparr>),
      poison_monster = (\<lambda>i wk l f w. w),
      miasma_monster = (\<lambda>i wk w. w),
      drain_exp = (\<lambda>i a w. w),
      draw_cell = (\<lambda>b p w. w),
      explosion_draw_cell = (\<lambda>b p w. w),
      explosion_delay = (\<lambda>w. w),
      canned_msg_nothing_happens = (\<lambda>w. w\<lparr>io := io w @ [''Nothing appears to happen.'']\<rparr>),
      xom_is_stimulated = (\<lambda>n w. w),
      set_pet_target = (\<lambda>i w. w),
      drop_object_live = (\<lambda>s. s),
      affect_player_live = (\<lambda>(b, w).
         (b\<lparr>range_used := range_used b + range_used_on_hit K_demo (\<lambda>f b v u. (False, u)) b The_Player\<rparr>,
          w\<lparr>dgn := (dgn w)\<lparr>d_you_hp := d_you_hp (dgn w) - 1\<rparr>\<rparr>)),
      affect_monster_live = (\<lambda>i (b, w).
         (b\<lparr>range_used := range_used b + range_used_on_hit K_demo (\<lambda>f b v u. (False, u)) b (A_Monster i)\<rparr>,
          w\<lparr>dgn := (dgn w)\<lparr>d_mon_hp := (d_mon_hp (dgn w))(i := d_mon_hp (dgn w) i - 1)\<rparr>\<rparr>)),
      affect_ground_live = (\<lambda>s. s),
      range_fn = (\<lambda>f b v u. (False, u)),
      hit_fn = (\<lambda>f b v d c w. (False, w)),
      dmg_fn = (\<lambda>f b v d w. ((False, d, []), w)),
      aoe_fn = (\<lambda>f b p. True)\<rparr>"

text \<open>A corridor along the row \<open>y = 5\<close>: floor from \<open>x = 1\<close> to \<open>x = 9\<close>, rock wall
  elsewhere; the player stands at \<open>(2,5)\<close>, an orc at \<open>(6,5)\<close>.\<close>

definition dgn_corridor :: demo_dgn where
  "dgn_corridor =
     \<lparr>d_monster_at = (\<lambda>p. if p = coord 6 5 then Some 0 else None),
      d_menv = (\<lambda>i. mv_demo\<lparr>m_pos := coord 6 5\<rparr>),
      d_mon_hp = (\<lambda>i. 10),
      d_you_pos = coord 2 5, d_you_hp = 20, d_inventory = [''wand'']\<rparr>"

definition w_corridor :: demo_world where
  "w_corridor =
     \<lparr>grd = (\<lambda>p. if cy p = 5 \<and> 1 \<le> cx p \<and> cx p \<le> 9 then DNGN_FLOOR else DNGN_ROCK_WALL),
      pgrid_bloody = (\<lambda>p. False), dgn = dgn_corridor, io = []\<rparr>"

text \<open>The player's bolts of the examples start at the player's cell. \<open>b_missile\<close> is a
  stone thrown at the orc, before the firing; \<open>b_bolt\<close> is the stone in flight on the
  orc's cell, four cells of its range spent; \<open>b_dig\<close> is a digging beam on the first
  wall cell east of the corridor; \<open>b_feet\<close> is a bolt without effect aimed at the
  player's own cell.\<close>

definition b_missile :: "line_ray bolt" where
  "b_missile = b_demo\<lparr>source_b := coord 2 5, target := coord 6 5, range_b := 8,
      thrower := KILL_YOU_MISSILE, beam_source := 10000, flavour := BEAM_MISSILE,
      real_flavour := BEAM_MISSILE, name_b := ''stone''\<rparr>"

definition b_bolt :: "line_ray bolt" where
  "b_bolt = b_missile\<lparr>range_used := 4, ray := (coord 6 5, coord 1 0)\<rparr>"







text \<open>A lightning bolt of the player on the first wall cell east of the corridor, two
  cells of its range left.\<close>

definition b_zap :: "line_ray bolt" where
  "b_zap = b_missile\<lparr>target := coord 12 5, range_b := 9, range_used := 7,
      flavour := BEAM_ELECTRICITY, real_flavour := BEAM_ELECTRICITY, is_beam := True,
      name_b := ''bolt of lightning'', ray := (coord 10 5, coord 1 0)\<rparr>"

text \<open>The orc breathes fire at an invisible player who stands next to it: the world
  \<open>w_close\<close> has the player at \<open>(5,5)\<close>, the collaborators \<open>E_unseen\<close> say that the
  player is invisible, and \<open>b_breath\<close> is the tracer of the orc's beam on the orc's own
  cell.\<close>

definition E_unseen :: "(line_ray, demo_dgn, string list) env" where
  "E_unseen = E_demo\<lparr>you_invisible := (\<lambda>w. True)\<rparr>"

definition w_close :: demo_world where
  "w_close = w_corridor\<lparr>dgn := dgn_corridor\<lparr>d_you_pos := coord 5 5\<rparr>\<rparr>"

definition b_breath :: "line_ray bolt" where
  "b_breath = b_demo\<lparr>source_b := coord 6 5, target := coord 5 5, range_b := 8,
      thrower := KILL_MON_MISSILE, beam_source := 0, flavour := BEAM_FIRE,
      real_flavour := BEAM_FIRE, is_beam := True, is_tracer := True, name_b := ''fire'',
      ray := (coord 6 5, coord (-1) 0)\<rparr>"

text \<open>Collaborators whose hit callback hurts the monster it is called for.\<close>

definition E_loud :: "(line_ray, demo_dgn, string list) env" where
  "E_loud = E_demo\<lparr>hit_fn := (\<lambda>f b v d c w.
       (True, w\<lparr>dgn := (dgn w)\<lparr>d_mon_hp := (\<lambda>i. d_mon_hp (dgn w) i - 1)\<rparr>\<rparr>))\<rparr>"

section \<open>Properties\<close>

subsection \<open>Hit and miss\<close>

text \<open>
  C7. The claim: an attack value equal to the automatic-hit sentinel always hits, whatever
  the defence and whatever deflection or repulsion the target has. The function tests
  for the sentinel only after deflection and repulsion have rewritten the attack value,
  as its comment says (``magic dart is dodgable with DMsl''). What holds: without
  deflection and repulsion the sentinel hits, whatever the defence, the kind of bolt and
  the random draws.
\<close>

theorem automatic_hit_without_deflection:
  "test_beam_hit AH AH defence beam False False r"
  by (simp add: test_beam_hit_def)

text \<open>The claim as stated fails: a deflecting target, the sentinel 1500 as attack value,
  defence 10, and the draws of \<open>rand_low\<close>: the deflection draw turns the attack into 0,
  the defence roll is 5, and the bolt misses.\<close>

theorem automatic_hit_deflected_counterexample:
  "\<not> test_beam_hit (AUTOMATIC_HIT K_demo) (AUTOMATIC_HIT K_demo) 10 False True False rand_low"
  by (simp add: test_beam_hit_def rand_low_def K_demo_def Let_def)


subsection \<open>The flood fill\<close>

lemma reach_valid: "fill_reach D ok B s0 s \<Longrightarrow> ok (fst s) \<and> snd s \<le> B"
  by (induction rule: fill_reach.induct) auto

lemma reach_start_valid: "fill_reach D ok B s0 s \<Longrightarrow> ok (fst s0) \<and> snd s0 \<le> B"
  by (induction rule: fill_reach.induct) auto

lemma reach_trans:
  "fill_reach D ok B s1 s \<Longrightarrow> fill_reach D ok B s0 s1 \<Longrightarrow> fill_reach D ok B s0 s"
  by (induction rule: fill_reach.induct) (auto intro: fill_reach.intros)

lemma vi_refl: "visit_inv D ok B hitp m m {} {}"
  by (simp add: visit_inv_def)

lemma vi_trans:
  assumes "visit_inv D ok B hitp m m1 V1 C1" and "visit_inv D ok B hitp m1 m2 V2 C2"
  shows "visit_inv D ok B hitp m m2 (V1 \<union> V2) (C1 \<union> C2)"
proof -
  have le1: "\<And>x. m1 x \<le> m x" and le2: "\<And>x. m2 x \<le> m1 x"
    using assms by (auto simp: visit_inv_def)
  have a: "\<forall>x. m2 x \<le> m x" using le1 le2 by (meson order_trans)
  have b: "\<forall>x. m2 x = m x \<or> (\<exists>e ce. (e, ce) \<in> V1 \<union> V2 \<and> x = coord_add e centre \<and> m2 x = ce \<and> hitp e)"
  proof
    fix x
    have n2: "m2 x = m1 x \<or> (\<exists>e ce. (e, ce) \<in> V2 \<and> x = coord_add e centre \<and> m2 x = ce \<and> hitp e)"
      using assms(2) by (auto simp: visit_inv_def)
    have n1: "m1 x = m x \<or> (\<exists>e ce. (e, ce) \<in> V1 \<and> x = coord_add e centre \<and> m1 x = ce \<and> hitp e)"
      using assms(1) by (auto simp: visit_inv_def)
    show "m2 x = m x \<or> (\<exists>e ce. (e, ce) \<in> V1 \<union> V2 \<and> x = coord_add e centre \<and> m2 x = ce \<and> hitp e)"
      using n1 n2 by (metis UnCI)
  qed
  have c: "\<forall>e ce. (e, ce) \<in> V1 \<union> V2 \<longrightarrow> hitp e \<longrightarrow> m2 (coord_add e centre) \<le> ce"
  proof (intro allI impI)
    fix e ce assume h: "(e, ce) \<in> V1 \<union> V2" "hitp e"
    show "m2 (coord_add e centre) \<le> ce"
    proof (cases "(e, ce) \<in> V2")
      case True then show ?thesis using assms(2) h by (auto simp: visit_inv_def)
    next
      case False
      then have "(e, ce) \<in> V1" using h by simp
      then have "m1 (coord_add e centre) \<le> ce" using assms(1) h by (auto simp: visit_inv_def)
      then show ?thesis using le2[of "coord_add e centre"] by linarith
    qed
  qed
  have d: "\<forall>e ce dir. (e, ce) \<in> C1 \<union> C2 \<longrightarrow> dir \<in> D \<longrightarrow> rdist (coord_add e dir) \<le> rdist centre \<longrightarrow>
            m2 (coord_add (coord_add e dir) centre) \<le> ce
            \<or> (ok (coord_add e dir) \<and> ce + cadd e dir \<le> B \<longrightarrow> (coord_add e dir, ce + cadd e dir) \<in> V1 \<union> V2)"
  proof (intro allI impI)
    fix e ce dir
    assume h: "(e, ce) \<in> C1 \<union> C2" "dir \<in> D" "rdist (coord_add e dir) \<le> rdist centre"
    show "m2 (coord_add (coord_add e dir) centre) \<le> ce
            \<or> (ok (coord_add e dir) \<and> ce + cadd e dir \<le> B \<longrightarrow> (coord_add e dir, ce + cadd e dir) \<in> V1 \<union> V2)"
    proof (cases "(e, ce) \<in> C2")
      case True
      then have "m2 (coord_add (coord_add e dir) centre) \<le> ce
            \<or> (ok (coord_add e dir) \<and> ce + cadd e dir \<le> B \<longrightarrow> (coord_add e dir, ce + cadd e dir) \<in> V2)"
        using assms(2) h unfolding visit_inv_def by blast
      then show ?thesis by blast
    next
      case False
      then have "(e, ce) \<in> C1" using h by simp
      then have "m1 (coord_add (coord_add e dir) centre) \<le> ce
            \<or> (ok (coord_add e dir) \<and> ce + cadd e dir \<le> B \<longrightarrow> (coord_add e dir, ce + cadd e dir) \<in> V1)"
        using assms(1) h unfolding visit_inv_def by blast
      then show ?thesis using le2[of "coord_add (coord_add e dir) centre"] by auto
    qed
  qed
  show ?thesis unfolding visit_inv_def using a b c d by blast
qed


lemma dac_unfold:
  "determine_affected_cells F w b m delta cnt r ss sw =
     (if cnt > 10 * r \<or> \<not> cell_open F w b r ss sw delta then m
      else fold (fill_next F w b delta cnt r ss sw) (take 8 (fe_Compass F))
             (if fill_hits F b delta
              then m(coord_add delta centre := min cnt (m (coord_add delta centre)))
              else m))"
proof -
  have fn: "(\<lambda>c ma. if rdist centre < rdist (coord_add delta c) then ma
                else if ma (coord_add (coord_add delta c) centre) \<le> cnt then ma
                else determine_affected_cells F w b ma (coord_add delta c) (cnt + cadd delta c) r ss sw)
            = fill_next F w b delta cnt r ss sw"
    by (intro ext) (simp add: fill_next_def Let_def)
  show ?thesis
    by (subst determine_affected_cells.simps)
       (auto simp: Let_def cell_open_def fill_hits_def fn)
qed

lemma vi_first:
  assumes "ok d" "cnt \<le> B"
  shows "visit_inv D ok B hitp m
           (if hitp d then m(coord_add d centre := min cnt (m (coord_add d centre))) else m)
           {(d, cnt)} {}"
  unfolding visit_inv_def by auto

lemma coord_add_inj: "coord_add e centre = coord_add e' centre \<Longrightarrow> e = e'"
  by (cases e, cases e') (simp add: coord_add_def)


lemma vi_close:
  assumes "visit_inv D ok B hitp m m' V C"
    and "\<forall>dir. dir \<in> D \<longrightarrow> rdist (coord_add e dir) \<le> rdist centre \<longrightarrow>
            m' (coord_add (coord_add e dir) centre) \<le> ce
            \<or> (ok (coord_add e dir) \<and> ce + cadd e dir \<le> B \<longrightarrow> (coord_add e dir, ce + cadd e dir) \<in> V)"
  shows "visit_inv D ok B hitp m m' V (insert (e, ce) C)"
  using assms unfolding visit_inv_def by auto

lemma vi_le: "visit_inv D ok B hitp m m' V C \<Longrightarrow> m' x \<le> m x"
  by (simp add: visit_inv_def)

lemma fold_visit:
  assumes IH: "\<And>dir ma. dir \<in> set cs \<Longrightarrow> \<not> rdist centre < rdist (coord_add d dir)
          \<Longrightarrow> \<not> ma (coord_add (coord_add d dir) centre) \<le> cnt \<Longrightarrow>
          \<exists>V. visit_inv D ok B hitp ma
                 (determine_affected_cells F w b ma (coord_add d dir) (cnt + cadd d dir) r ss sw) V V
             \<and> (\<forall>s\<in>V. fill_reach D ok B (coord_add d dir, cnt + cadd d dir) s)
             \<and> (ok (coord_add d dir) \<and> cnt + cadd d dir \<le> B
                  \<longrightarrow> (coord_add d dir, cnt + cadd d dir) \<in> V)"
    and sub: "set cs \<subseteq> D" and okd: "ok d" and bd: "cnt \<le> B"
  shows "\<exists>V. visit_inv D ok B hitp m1 (fold (fill_next F w b d cnt r ss sw) cs m1) V V
            \<and> (\<forall>s\<in>V. fill_reach D ok B (d, cnt) s)
            \<and> (\<forall>dir\<in>set cs. rdist (coord_add d dir) \<le> rdist centre \<longrightarrow>
                  fold (fill_next F w b d cnt r ss sw) cs m1 (coord_add (coord_add d dir) centre) \<le> cnt
                  \<or> (ok (coord_add d dir) \<and> cnt + cadd d dir \<le> B
                       \<longrightarrow> (coord_add d dir, cnt + cadd d dir) \<in> V))"
  using IH sub
proof (induction cs arbitrary: m1)
  case Nil
  show ?case using vi_refl[of D ok B hitp m1] by auto
next
  case (Cons c cs)
  let ?g = "fill_next F w b d cnt r ss sw"
  let ?ma = "?g c m1"
  have cD: "c \<in> D" using Cons.prems(2) by simp
  have step: "\<exists>Va. visit_inv D ok B hitp m1 ?ma Va Va
            \<and> (\<forall>s\<in>Va. fill_reach D ok B (d, cnt) s)
            \<and> (rdist (coord_add d c) \<le> rdist centre \<longrightarrow>
                  ?ma (coord_add (coord_add d c) centre) \<le> cnt
                  \<or> (ok (coord_add d c) \<and> cnt + cadd d c \<le> B
                       \<longrightarrow> (coord_add d c, cnt + cadd d c) \<in> Va))"
  proof (cases "rdist centre < rdist (coord_add d c) \<or> m1 (coord_add (coord_add d c) centre) \<le> cnt")
    case True
    then have "?ma = m1" by (auto simp: fill_next_def Let_def)
    then show ?thesis using vi_refl[of D ok B hitp m1] True by auto
  next
    case False
    then have eq: "?ma = determine_affected_cells F w b m1 (coord_add d c) (cnt + cadd d c) r ss sw"
      by (auto simp: fill_next_def Let_def)
    from False Cons.prems(1)[of c m1]
    obtain V where V: "visit_inv D ok B hitp m1
                 (determine_affected_cells F w b m1 (coord_add d c) (cnt + cadd d c) r ss sw) V V"
      "\<forall>s\<in>V. fill_reach D ok B (coord_add d c, cnt + cadd d c) s"
      "ok (coord_add d c) \<and> cnt + cadd d c \<le> B \<longrightarrow> (coord_add d c, cnt + cadd d c) \<in> V"
      by auto
    have "\<forall>s\<in>V. fill_reach D ok B (d, cnt) s"
    proof
      fix s assume sV: "s \<in> V"
      then have r1: "fill_reach D ok B (coord_add d c, cnt + cadd d c) s" using V(2) by blast
      then have "ok (coord_add d c) \<and> cnt + cadd d c \<le> B"
        using reach_start_valid[OF r1] by simp
      then have "fill_reach D ok B (d, cnt) (coord_add d c, cnt + cadd d c)"
        using False cD okd bd
        by (intro reach_step reach_start) auto
      then show "fill_reach D ok B (d, cnt) s" using reach_trans[OF r1] by blast
    qed
    then show ?thesis using V eq by auto
  qed
  then obtain Va where Va: "visit_inv D ok B hitp m1 ?ma Va Va"
      "\<forall>s\<in>Va. fill_reach D ok B (d, cnt) s"
      "rdist (coord_add d c) \<le> rdist centre \<longrightarrow>
                  ?ma (coord_add (coord_add d c) centre) \<le> cnt
                  \<or> (ok (coord_add d c) \<and> cnt + cadd d c \<le> B
                       \<longrightarrow> (coord_add d c, cnt + cadd d c) \<in> Va)"
    by blast
  have "\<exists>V. visit_inv D ok B hitp ?ma (fold ?g cs ?ma) V V
            \<and> (\<forall>s\<in>V. fill_reach D ok B (d, cnt) s)
            \<and> (\<forall>dir\<in>set cs. rdist (coord_add d dir) \<le> rdist centre \<longrightarrow>
                  fold ?g cs ?ma (coord_add (coord_add d dir) centre) \<le> cnt
                  \<or> (ok (coord_add d dir) \<and> cnt + cadd d dir \<le> B
                       \<longrightarrow> (coord_add d dir, cnt + cadd d dir) \<in> V))"
    using Cons.prems by (intro Cons.IH) auto
  then obtain Vb where Vb: "visit_inv D ok B hitp ?ma (fold ?g cs ?ma) Vb Vb"
      "\<forall>s\<in>Vb. fill_reach D ok B (d, cnt) s"
      "\<forall>dir\<in>set cs. rdist (coord_add d dir) \<le> rdist centre \<longrightarrow>
                  fold ?g cs ?ma (coord_add (coord_add d dir) centre) \<le> cnt
                  \<or> (ok (coord_add d dir) \<and> cnt + cadd d dir \<le> B
                       \<longrightarrow> (coord_add d dir, cnt + cadd d dir) \<in> Vb)"
    by blast
  have vi: "visit_inv D ok B hitp m1 (fold ?g cs ?ma) (Va \<union> Vb) (Va \<union> Vb)"
    using vi_trans[OF Va(1) Vb(1)] .
  have le: "fold ?g cs ?ma (coord_add (coord_add d c) centre) \<le> ?ma (coord_add (coord_add d c) centre)"
    using vi_le[OF Vb(1)] .
  have "\<forall>dir\<in>set (c # cs). rdist (coord_add d dir) \<le> rdist centre \<longrightarrow>
                  fold ?g cs ?ma (coord_add (coord_add d dir) centre) \<le> cnt
                  \<or> (ok (coord_add d dir) \<and> cnt + cadd d dir \<le> B
                       \<longrightarrow> (coord_add d dir, cnt + cadd d dir) \<in> Va \<union> Vb)"
  proof
    fix dir assume "dir \<in> set (c # cs)"
    then consider "dir = c" | "dir \<in> set cs" by auto
    then show "rdist (coord_add d dir) \<le> rdist centre \<longrightarrow>
                  fold ?g cs ?ma (coord_add (coord_add d dir) centre) \<le> cnt
                  \<or> (ok (coord_add d dir) \<and> cnt + cadd d dir \<le> B
                       \<longrightarrow> (coord_add d dir, cnt + cadd d dir) \<in> Va \<union> Vb)"
    proof cases
      case 1 then show ?thesis using Va(3) le by auto
    next
      case 2 then show ?thesis using Vb(3) by auto
    qed
  qed
  then show ?case using vi Va(2) Vb(2) by (intro exI[of _ "Va \<union> Vb"]) auto
qed

lemma dac_visit:
  "\<exists>V. visit_inv (set (take 8 (fe_Compass F))) (cell_open F w b r ss sw) (10 * r) (fill_hits F b) m
          (determine_affected_cells F w b m d cnt r ss sw) V V
     \<and> (\<forall>s\<in>V. fill_reach (set (take 8 (fe_Compass F))) (cell_open F w b r ss sw) (10 * r) (d, cnt) s)
     \<and> (cell_open F w b r ss sw d \<and> cnt \<le> 10 * r \<longrightarrow> (d, cnt) \<in> V)"
proof (induction F w b m d cnt r ss sw rule: determine_affected_cells.induct)
  case (1 F w b m delta cnt r ss sw)
  let ?D = "set (take 8 (fe_Compass F))" and ?ok = "cell_open F w b r ss sw"
  let ?B = "10 * r" and ?h = "fill_hits F b"
  show ?case
  proof (cases "cnt > 10 * r \<or> \<not> ?ok delta")
    case True
    then have "determine_affected_cells F w b m delta cnt r ss sw = m"
      by (subst dac_unfold) simp
    then show ?thesis using vi_refl[of ?D ?ok ?B ?h m] True by auto
  next
    case False
    then have okd: "?ok delta" and bd: "cnt \<le> ?B" by auto
    let ?m1 = "if ?h delta then m(coord_add delta centre := min cnt (m (coord_add delta centre))) else m"
    let ?g = "fill_next F w b delta cnt r ss sw"
    have eq: "determine_affected_cells F w b m delta cnt r ss sw = fold ?g (take 8 (fe_Compass F)) ?m1"
      using False by (subst dac_unfold) simp
    have ih: "\<exists>V. visit_inv ?D ?ok ?B ?h ma
                 (determine_affected_cells F w b ma (coord_add delta dir) (cnt + cadd delta dir) r ss sw) V V
             \<and> (\<forall>s\<in>V. fill_reach ?D ?ok ?B (coord_add delta dir, cnt + cadd delta dir) s)
             \<and> (?ok (coord_add delta dir) \<and> cnt + cadd delta dir \<le> ?B
                  \<longrightarrow> (coord_add delta dir, cnt + cadd delta dir) \<in> V)"
      if "dir \<in> set (take 8 (fe_Compass F))" "\<not> rdist centre < rdist (coord_add delta dir)"
         "\<not> ma (coord_add (coord_add delta dir) centre) \<le> cnt" for dir ma
      by (rule "1.IH"[OF refl refl _ refl _ _ refl refl _ refl])
         (use okd bd that in \<open>auto simp: cell_open_def Let_def\<close>)
    from fold_visit[of "take 8 (fe_Compass F)" delta cnt ?D ?ok ?B ?h F w b r ss sw ?m1, OF ih _ okd bd]
    obtain V2 where V2: "visit_inv ?D ?ok ?B ?h ?m1 (fold ?g (take 8 (fe_Compass F)) ?m1) V2 V2"
       "\<forall>s\<in>V2. fill_reach ?D ?ok ?B (delta, cnt) s"
       "\<forall>dir\<in>?D. rdist (coord_add delta dir) \<le> rdist centre \<longrightarrow>
                  fold ?g (take 8 (fe_Compass F)) ?m1 (coord_add (coord_add delta dir) centre) \<le> cnt
                  \<or> (?ok (coord_add delta dir) \<and> cnt + cadd delta dir \<le> ?B
                       \<longrightarrow> (coord_add delta dir, cnt + cadd delta dir) \<in> V2)"
      by auto
    have v1: "visit_inv ?D ?ok ?B ?h m ?m1 {(delta, cnt)} {}"
      using vi_first[of ?ok delta cnt ?B ?D ?h m] okd bd by simp
    have v12: "visit_inv ?D ?ok ?B ?h m (fold ?g (take 8 (fe_Compass F)) ?m1) ({(delta, cnt)} \<union> V2) ({} \<union> V2)"
      using vi_trans[OF v1 V2(1)] .
    have v3: "visit_inv ?D ?ok ?B ?h m (fold ?g (take 8 (fe_Compass F)) ?m1) ({(delta, cnt)} \<union> V2)
                (insert (delta, cnt) ({} \<union> V2))"
      by (rule vi_close[OF v12]) (use V2(3) in auto)
    have r0: "fill_reach ?D ?ok ?B (delta, cnt) (delta, cnt)"
      using okd bd by (intro reach_start) auto
    show ?thesis
      unfolding eq
      by (rule exI[of _ "{(delta, cnt)} \<union> V2"]) (use v3 V2(2) r0 in auto)
  qed
qed


lemma cadd_pos: "0 < cadd d c"
  by (simp add: cadd_def)

lemma dac_complete:
  assumes small: "10 * r < INT_MAX"
    and reach: "fill_reach (set (take 8 (fe_Compass F))) (cell_open F w b r ss sw) (10 * r) (d0, c0) (e, ce)"
    and hit: "fill_hits F b e"
  shows "determine_affected_cells F w b exp_map_init d0 c0 r ss sw (coord_add e centre) \<le> ce"
proof -
  let ?D = "set (take 8 (fe_Compass F))" and ?ok = "cell_open F w b r ss sw"
  let ?B = "10 * r" and ?h = "fill_hits F b"
  let ?M = "determine_affected_cells F w b exp_map_init d0 c0 r ss sw"
  from dac_visit[of F w b r ss sw exp_map_init d0 c0]
  obtain V where V: "visit_inv ?D ?ok ?B ?h exp_map_init ?M V V"
     "\<forall>s\<in>V. fill_reach ?D ?ok ?B (d0, c0) s"
     "?ok d0 \<and> c0 \<le> ?B \<longrightarrow> (d0, c0) \<in> V"
    by blast
  have key: "\<exists>c'. c' \<le> snd s \<and> (fst s, c') \<in> V" if "fill_reach ?D ?ok ?B (d0, c0) s" for s
    using that
  proof (induction rule: fill_reach.induct)
    case reach_start
    then show ?case using V(3) by auto
  next
    case (reach_step x cx dir)
    then obtain c' where c': "c' \<le> cx" "(x, c') \<in> V" by auto
    have c'B: "c' \<le> ?B" using reach_valid[of ?D ?ok ?B "(d0, c0)" "(x, c')"] V(2) c'(2) by auto
    let ?y = "coord_add (coord_add x dir) centre"
    have cl: "?M ?y \<le> c' \<or> (?ok (coord_add x dir) \<and> c' + cadd x dir \<le> ?B
                \<longrightarrow> (coord_add x dir, c' + cadd x dir) \<in> V)"
      using V(1) c'(2) reach_step.hyps(2,3) unfolding visit_inv_def by blast
    show ?case
    proof (cases "?M ?y \<le> c'")
      case True
      have "?M ?y \<noteq> exp_map_init ?y"
        using True c'B small by (auto simp: exp_map_init_def)
      then obtain e2 ce2 where e2: "(e2, ce2) \<in> V" "?y = coord_add e2 centre" "?M ?y = ce2"
        using V(1) unfolding visit_inv_def by blast
      have "e2 = coord_add x dir" using coord_add_inj[OF e2(2)] by simp
      moreover have "ce2 \<le> cx + cadd x dir" using e2(3) True c'(1) cadd_pos[of x dir] by linarith
      ultimately show ?thesis using e2(1) by auto
    next
      case False
      then have "(coord_add x dir, c' + cadd x dir) \<in> V"
        using cl reach_step.hyps(4,5) c'(1) by auto
      then show ?thesis using c'(1) by (intro exI[of _ "c' + cadd x dir"]) auto
    qed
  qed
  from key[OF reach] obtain c' where c': "c' \<le> ce" "(e, c') \<in> V" by auto
  then have "?M (coord_add e centre) \<le> c'" using V(1) hit unfolding visit_inv_def by blast
  then show ?thesis using c'(1) by linarith
qed

lemma dac_sound:
  "determine_affected_cells F w b exp_map_init d0 c0 r ss sw x = INT_MAX
   \<or> (\<exists>e. x = coord_add e centre \<and> fill_hits F b e
          \<and> fill_reach (set (take 8 (fe_Compass F))) (cell_open F w b r ss sw) (10 * r) (d0, c0)
               (e, determine_affected_cells F w b exp_map_init d0 c0 r ss sw x))"
proof -
  let ?D = "set (take 8 (fe_Compass F))" and ?ok = "cell_open F w b r ss sw"
  let ?B = "10 * r" and ?h = "fill_hits F b"
  let ?M = "determine_affected_cells F w b exp_map_init d0 c0 r ss sw"
  from dac_visit[of F w b r ss sw exp_map_init d0 c0]
  obtain V where V: "visit_inv ?D ?ok ?B ?h exp_map_init ?M V V"
     "\<forall>s\<in>V. fill_reach ?D ?ok ?B (d0, c0) s"
    by blast
  have "?M x = exp_map_init x \<or> (\<exists>e ce. (e, ce) \<in> V \<and> x = coord_add e centre \<and> ?M x = ce \<and> ?h e)"
    using V(1) unfolding visit_inv_def by blast
  then show ?thesis using V(2) by (auto simp: exp_map_init_def)
qed

lemma dac_le_init:
  "determine_affected_cells F w b exp_map_init d0 c0 r ss sw x \<le> INT_MAX"
proof -
  from dac_visit[of F w b r ss sw exp_map_init d0 c0]
  obtain V where "visit_inv (set (take 8 (fe_Compass F))) (cell_open F w b r ss sw) (10 * r)
      (fill_hits F b) exp_map_init (determine_affected_cells F w b exp_map_init d0 c0 r ss sw) V V"
    by blast
  from vi_le[OF this, of x] show ?thesis by (simp add: exp_map_init_def)
qed

lemma cell_open_Compass [simp]: "cell_open (F\<lparr>fe_Compass := cs\<rparr>) = cell_open F"
  by (intro ext) (simp add: cell_open_def)

lemma fill_hits_Compass [simp]: "fill_hits (F\<lparr>fe_Compass := cs\<rparr>) = fill_hits F"
  by (intro ext) (simp add: fill_hits_def)

lemma dac_order_le:
  assumes small: "10 * r < INT_MAX"
    and same: "set (take 8 cs) = set (take 8 (fe_Compass F))"
  shows "determine_affected_cells (F\<lparr>fe_Compass := cs\<rparr>) w b exp_map_init d0 c0 r ss sw x
         \<le> determine_affected_cells F w b exp_map_init d0 c0 r ss sw x"
proof -
  let ?F' = "F\<lparr>fe_Compass := cs\<rparr>"
  from dac_sound[of F w b d0 c0 r ss sw x]
  show ?thesis
  proof
    assume "determine_affected_cells F w b exp_map_init d0 c0 r ss sw x = INT_MAX"
    then show ?thesis using dac_le_init[of ?F' w b d0 c0 r ss sw x] by simp
  next
    assume "\<exists>e. x = coord_add e centre \<and> fill_hits F b e
          \<and> fill_reach (set (take 8 (fe_Compass F))) (cell_open F w b r ss sw) (10 * r) (d0, c0)
               (e, determine_affected_cells F w b exp_map_init d0 c0 r ss sw x)"
    then obtain e where e: "x = coord_add e centre" "fill_hits F b e"
       "fill_reach (set (take 8 (fe_Compass F))) (cell_open F w b r ss sw) (10 * r) (d0, c0)
               (e, determine_affected_cells F w b exp_map_init d0 c0 r ss sw x)"
      by blast
    have "fill_reach (set (take 8 (fe_Compass ?F'))) (cell_open ?F' w b r ss sw) (10 * r) (d0, c0)
               (e, determine_affected_cells F w b exp_map_init d0 c0 r ss sw x)"
      using e(3) same by simp
    from dac_complete[OF small this] e(1,2) show ?thesis by simp
  qed
qed


text \<open>
  C9. For the radius that \<^verbatim>\<open>explode\<close> passes (at most \<^verbatim>\<open>MAX_EXPLOSION_RADIUS = 9\<close>),
  any start and any blocking cells: exploring the eight directions in another order gives
  the same map; every entry of the map other than \<^verbatim>\<open>INT_MAX\<close> is the cost of a walk to
  an accepted cell, and no walk to an accepted cell is cheaper than its entry.
\<close>

theorem flood_fill_order_independent:
  assumes "r \<le> 9"
    and "set (take 8 cs) = set (take 8 (fe_Compass F))"
  shows "determine_affected_cells (F\<lparr>fe_Compass := cs\<rparr>) w b exp_map_init d0 c0 r ss sw
           = determine_affected_cells F w b exp_map_init d0 c0 r ss sw
         \<and> (\<forall>e ce. fill_reach (set (take 8 (fe_Compass F))) (cell_open F w b r ss sw) (10 * r)
                      (d0, c0) (e, ce) \<and> fill_hits F b e
               \<longrightarrow> determine_affected_cells F w b exp_map_init d0 c0 r ss sw (coord_add e centre) \<le> ce)
         \<and> (\<forall>x. determine_affected_cells F w b exp_map_init d0 c0 r ss sw x = INT_MAX
               \<or> (\<exists>e. x = coord_add e centre \<and> fill_hits F b e
                    \<and> fill_reach (set (take 8 (fe_Compass F))) (cell_open F w b r ss sw) (10 * r)
                         (d0, c0) (e, determine_affected_cells F w b exp_map_init d0 c0 r ss sw x)))"
proof -
  have small: "10 * r < INT_MAX" using assms(1) by (simp add: INT_MAX_def)
  have eq: "determine_affected_cells (F\<lparr>fe_Compass := cs\<rparr>) w b exp_map_init d0 c0 r ss sw
           = determine_affected_cells F w b exp_map_init d0 c0 r ss sw"
  proof
    fix x
    have a: "determine_affected_cells (F\<lparr>fe_Compass := cs\<rparr>) w b exp_map_init d0 c0 r ss sw x
         \<le> determine_affected_cells F w b exp_map_init d0 c0 r ss sw x"
      using dac_order_le[OF small assms(2)] .
    have "set (take 8 (fe_Compass F)) = set (take 8 (fe_Compass (F\<lparr>fe_Compass := cs\<rparr>)))"
      using assms(2) by simp
    from dac_order_le[OF small this, of w b d0 c0 ss sw x]
    have b: "determine_affected_cells F w b exp_map_init d0 c0 r ss sw x
         \<le> determine_affected_cells (F\<lparr>fe_Compass := cs\<rparr>) w b exp_map_init d0 c0 r ss sw x"
      by simp
    show "determine_affected_cells (F\<lparr>fe_Compass := cs\<rparr>) w b exp_map_init d0 c0 r ss sw x
         = determine_affected_cells F w b exp_map_init d0 c0 r ss sw x"
      using a b by linarith
  qed
  show ?thesis
    using eq dac_complete[OF small] dac_sound[of F w b d0 c0 r ss sw] by blast
qed

theorem flood_fill_order_independent_witness:
  "(1::int) \<le> 9 \<and> set (take 8 (rev Compass_demo)) = set (take 8 (fe_Compass F_demo))
   \<and> determine_affected_cells (F_demo\<lparr>fe_Compass := rev Compass_demo\<rparr>) w_floor
         (b_demo\<lparr>target := coord 20 20, use_target_as_pos := True\<rparr>) exp_map_init (coord 0 0) 0 1 True True
     = determine_affected_cells F_demo w_floor
         (b_demo\<lparr>target := coord 20 20, use_target_as_pos := True\<rparr>) exp_map_init (coord 0 0) 0 1 True True"
proof -
  have a: "(1::int) \<le> 9" by simp
  have b: "set (take 8 (rev Compass_demo)) = set (take 8 (fe_Compass F_demo))"
    by (simp add: Compass_demo_def F_demo_def insert_commute)
  show ?thesis
    using flood_fill_order_independent[OF a b, of w_floor
        "b_demo\<lparr>target := coord 20 20, use_target_as_pos := True\<rparr>" "coord 0 0" 0 True True] a b
    by simp
qed

section \<open>Resistance scaling\<close>

text \<open>Each label of the \<^verbatim>\<open>switch\<close>: without the flavoured effects the bolt and the world
  come back as they went in, and with them the number is the same.\<close>

lemma maf_fire_steam_silent: "snd (maf_fire_steam E monster pbolt h False w) = (pbolt, w)"
  by (simp add: maf_fire_steam_def flav_msg_def resisted_msg_def Let_def)

lemma maf_fire_steam_number: "fst (maf_fire_steam E monster pbolt h True w) = fst (maf_fire_steam E monster pbolt h False w)"
  by (simp add: maf_fire_steam_def flav_msg_def resisted_msg_def Let_def split: prod.splits)

lemma maf_cold_silent: "snd (maf_cold E monster pbolt h False w) = (pbolt, w)"
  by (simp add: maf_cold_def flav_msg_def resisted_msg_def Let_def)

lemma maf_cold_number: "fst (maf_cold E monster pbolt h True w) = fst (maf_cold E monster pbolt h False w)"
  by (simp add: maf_cold_def flav_msg_def resisted_msg_def Let_def split: prod.splits)

lemma maf_electricity_silent: "snd (maf_electricity E monster pbolt h False w) = (pbolt, w)"
  by (simp add: maf_electricity_def flav_msg_def resisted_msg_def Let_def)

lemma maf_electricity_number: "fst (maf_electricity E monster pbolt h True w) = fst (maf_electricity E monster pbolt h False w)"
  by (simp add: maf_electricity_def flav_msg_def resisted_msg_def Let_def split: prod.splits)

lemma maf_acid_silent: "snd (maf_acid E monster pbolt h False w) = (pbolt, w)"
  by (simp add: maf_acid_def flav_msg_def resisted_msg_def Let_def)

lemma maf_acid_number: "fst (maf_acid E monster pbolt h True w) = fst (maf_acid E monster pbolt h False w)"
  by (simp add: maf_acid_def flav_msg_def resisted_msg_def Let_def split: prod.splits)

lemma maf_poison_silent: "snd (maf_poison E monster pbolt h False w) = (pbolt, w)"
  by (simp add: maf_poison_def flav_msg_def resisted_msg_def Let_def)

lemma maf_poison_number: "fst (maf_poison E monster pbolt h True w) = fst (maf_poison E monster pbolt h False w)"
  by (simp add: maf_poison_def flav_msg_def resisted_msg_def Let_def split: prod.splits)

lemma maf_poison_arrow_silent: "snd (maf_poison_arrow E monster pbolt h False w) = (pbolt, w)"
  by (simp add: maf_poison_arrow_def flav_msg_def resisted_msg_def Let_def)

lemma maf_poison_arrow_number: "fst (maf_poison_arrow E monster pbolt h True w) = fst (maf_poison_arrow E monster pbolt h False w)"
  by (simp add: maf_poison_arrow_def flav_msg_def resisted_msg_def Let_def split: prod.splits)

lemma maf_neg_silent: "snd (maf_neg E monster pbolt h False w) = (pbolt, w)"
  by (simp add: maf_neg_def flav_msg_def resisted_msg_def Let_def)

lemma maf_neg_number: "fst (maf_neg E monster pbolt h True w) = fst (maf_neg E monster pbolt h False w)"
  by (simp add: maf_neg_def flav_msg_def resisted_msg_def Let_def split: prod.splits)

lemma maf_miasma_silent: "snd (maf_miasma E monster pbolt h False w) = (pbolt, w)"
  by (simp add: maf_miasma_def flav_msg_def resisted_msg_def Let_def)

lemma maf_miasma_number: "fst (maf_miasma E monster pbolt h True w) = fst (maf_miasma E monster pbolt h False w)"
  by (simp add: maf_miasma_def flav_msg_def resisted_msg_def Let_def split: prod.splits)

lemma maf_holy_silent: "snd (maf_holy E monster pbolt h False w) = (pbolt, w)"
  by (simp add: maf_holy_def flav_msg_def resisted_msg_def Let_def)

lemma maf_holy_number: "fst (maf_holy E monster pbolt h True w) = fst (maf_holy E monster pbolt h False w)"
  by (simp add: maf_holy_def flav_msg_def resisted_msg_def Let_def split: prod.splits)

lemma maf_ice_silent: "snd (maf_ice E monster pbolt h False w) = (pbolt, w)"
  by (simp add: maf_ice_def flav_msg_def resisted_msg_def Let_def)

lemma maf_ice_number: "fst (maf_ice E monster pbolt h True w) = fst (maf_ice E monster pbolt h False w)"
  by (simp add: maf_ice_def flav_msg_def resisted_msg_def Let_def split: prod.splits)

lemma maf_lava_silent: "snd (maf_lava E monster pbolt h False w) = (pbolt, w)"
  by (simp add: maf_lava_def flav_msg_def resisted_msg_def Let_def)

lemma maf_lava_number: "fst (maf_lava E monster pbolt h True w) = fst (maf_lava E monster pbolt h False w)"
  by (simp add: maf_lava_def flav_msg_def resisted_msg_def Let_def split: prod.splits)

lemma maf_hellfire_silent: "snd (maf_hellfire E monster pbolt h False w) = (pbolt, w)"
  by (simp add: maf_hellfire_def flav_msg_def resisted_msg_def Let_def)

lemma maf_hellfire_number: "fst (maf_hellfire E monster pbolt h True w) = fst (maf_hellfire E monster pbolt h False w)"
  by (simp add: maf_hellfire_def flav_msg_def resisted_msg_def Let_def split: prod.splits)

lemma maf_spore_silent: "snd (maf_spore E monster pbolt h False w) = (pbolt, w)"
  by (simp add: maf_spore_def flav_msg_def resisted_msg_def Let_def)

lemma maf_spore_number: "fst (maf_spore E monster pbolt h True w) = fst (maf_spore E monster pbolt h False w)"
  by (simp add: maf_spore_def flav_msg_def resisted_msg_def Let_def split: prod.splits)

lemmas maf_silent = maf_fire_steam_silent maf_cold_silent maf_electricity_silent maf_acid_silent maf_poison_silent maf_poison_arrow_silent maf_neg_silent maf_miasma_silent maf_holy_silent maf_ice_silent maf_lava_silent maf_hellfire_silent maf_spore_silent
lemmas maf_number = maf_fire_steam_number maf_cold_number maf_electricity_number maf_acid_number maf_poison_number maf_poison_arrow_number maf_neg_number maf_miasma_number maf_holy_number maf_ice_number maf_lava_number maf_hellfire_number maf_spore_number

lemma mons_adjust_flavoured_silent:
  "snd (mons_adjust_flavoured E monster pbolt h False w) = (pbolt, w)"
  by (simp add: mons_adjust_flavoured_def Let_def maf_silent)

lemma mons_adjust_flavoured_number:
  "fst (mons_adjust_flavoured E monster pbolt h True w)
   = fst (mons_adjust_flavoured E monster pbolt h False w)"
  by (simp add: mons_adjust_flavoured_def Let_def maf_number)


text \<open>
  C8. \<^verbatim>\<open>mons_adjust_flavoured\<close> called with \<^verbatim>\<open>doFlavouredEffects = false\<close> changes neither
  the bolt nor the world (it prints nothing, draws no random number, applies no status),
  so calling it again on what it returns gives the same number; and the call with
  \<^verbatim>\<open>doFlavouredEffects = true\<close>, which narrates and applies the effects, returns that
  same number.
\<close>

theorem flavoured_damage_prediction:
  "(case mons_adjust_flavoured E monster pbolt h False w of
      (n, pbolt', w') \<Rightarrow>
        pbolt' = pbolt \<and> w' = w
        \<and> fst (mons_adjust_flavoured E monster pbolt' h False w') = n
        \<and> fst (mons_adjust_flavoured E monster pbolt h True w) = n)"
proof -
  obtain n pbolt' w' where r: "mons_adjust_flavoured E monster pbolt h False w = (n, pbolt', w')"
    by (cases "mons_adjust_flavoured E monster pbolt h False w") auto
  have s: "pbolt' = pbolt \<and> w' = w"
    using mons_adjust_flavoured_silent[of E monster pbolt h w] r by simp
  have t: "fst (mons_adjust_flavoured E monster pbolt h True w) = n"
    using mons_adjust_flavoured_number[of E monster pbolt h w] r by simp
  show ?thesis using r s t by simp
qed


section \<open>Range spent on a hit\<close>

















section \<open>Digging\<close>




section \<open>Stopping at the target\<close>

text \<open>
  C4. On the target cell, with range left and the firing not cancelled (the loop tests
  both first), the loop is left exactly when \<^verbatim>\<open>stop_at_target\<close> holds, and that is
  exactly for an explosion, a big cloud or a bolt flagged \<^verbatim>\<open>aimed_at_spot\<close>; the flag
  \<^verbatim>\<open>is_beam\<close> plays no part.
\<close>

theorem stops_at_target_iff_configured:
  assumes "range_used b < range_b b" and "\<not> beam_cancelled b" and "bpos E b = target b"
  shows "(fst (fire_checks E (b, w)) = Break) = stop_at_target b
         \<and> stop_at_target b = (is_explosion b \<or> is_big_cloud b \<or> aimed_at_spot b)"
  using assms
  by (auto simp: fire_checks_def Let_def stop_at_target_def draw_def split: prod.splits)

theorem stops_at_target_iff_configured_witness:
  "range_used b_bolt < range_b b_bolt \<and> \<not> beam_cancelled b_bolt
   \<and> bpos E_demo b_bolt = target b_bolt
   \<and> (fst (fire_checks E_demo (b_bolt, w_corridor)) = Break) = stop_at_target b_bolt
   \<and> stop_at_target b_bolt = (is_explosion b_bolt \<or> is_big_cloud b_bolt \<or> aimed_at_spot b_bolt)"
proof -
  have a: "range_used b_bolt < range_b b_bolt" "\<not> beam_cancelled b_bolt"
    by (simp_all add: b_bolt_def b_missile_def b_demo_def bolt_ctor_def)
  have p: "bpos E_demo b_bolt = target b_bolt"
    by (simp add: bpos_def pos_def b_bolt_def b_missile_def b_demo_def bolt_ctor_def E_demo_def)
  show ?thesis
    using stops_at_target_iff_configured[of b_bolt E_demo w_corridor, OF a p] a p by simp
qed

theorem single_target_passes_target_counterexample:
  "\<not> is_beam b_bolt \<and> \<not> is_explosion b_bolt \<and> \<not> is_big_cloud b_bolt
   \<and> bpos E_demo b_bolt = target b_bolt
   \<and> range_used b_bolt < range_b b_bolt \<and> \<not> beam_cancelled b_bolt
   \<and> fst (fire_checks E_demo (b_bolt, w_corridor)) = Continue
   \<and> fst (fire_checks E_demo (b_bolt\<lparr>is_beam := True, aimed_at_spot := True\<rparr>, w_corridor)) = Break"
  by (simp add: fire_checks_def Let_def stop_at_target_def draw_def b_bolt_def b_missile_def
        b_demo_def bolt_ctor_def E_demo_def bpos_def pos_def invisible_def is_enchantment_def
        K_demo_def coord_def split: prod.splits)


section \<open>The charge of a step\<close>


















end
